theory Spec2Isabelle
  imports Main "HOL-Library.Sublist"
begin

text \<open>
  ResourceScout answers a study question with a text from a generation API, videos from
  a YouTube search and articles from a web search. The theory follows its three
  modules: \<open>core/llm.py\<close> (the handler with its retry helper), \<open>core/retrieval.py\<close>
  (the two searches) and \<open>service.py\<close> (\<open>handle_request\<close>, which picks a route and
  assembles the \<open>ResourceResult\<close>).

  Python's effects are explicit. Whatever a library decides is a field of the record
  \<open>world\<close>; an exception is a value \<open>Inl e\<close>; the external calls a function makes are
  appended to a trace of events that it takes and returns. Output by \<open>print\<close> is left
  out.
\<close>

section \<open>Python values\<close>

text \<open>
  A Python \<open>str\<close> is a sequence of Unicode code points; each code point is a natural
  number. \<open>lit\<close> turns an ASCII literal of the source into such a sequence.
\<close>

type_synonym pystr = "nat list"

definition lit :: "string \<Rightarrow> pystr" where
  "lit s = map of_char s"

text \<open>
  What \<open>json.loads\<close> can return, and therefore what the fields of the structured reply
  can hold: \<open>None\<close>, a bool, a number, a string, a list or a dict. Numbers are integers
  here; a float takes the same branch as an integer everywhere below (it is falsy exactly
  when zero and has neither \<open>get\<close> nor \<open>lower\<close>). A dict is an association list.
\<close>

datatype pyval =
    PNone
  | PBool bool
  | PInt int
  | PStr pystr
  | PList "pyval list"
  | PDict "(pystr \<times> pyval) list"

text \<open>Python's truth value of an object, as tested by \<open>if not data\<close>.\<close>

fun truthy :: "pyval \<Rightarrow> bool" where
  "truthy PNone = False"
| "truthy (PBool b) = b"
| "truthy (PInt i) = (i \<noteq> 0)"
| "truthy (PStr s) = (s \<noteq> [])"
| "truthy (PList xs) = (xs \<noteq> [])"
| "truthy (PDict kvs) = (kvs \<noteq> [])"

text \<open>\<open>d.get(k, default)\<close>: the stored value when the key is present, also when it is \<open>None\<close>.\<close>

definition dict_get :: "(pystr \<times> pyval) list \<Rightarrow> pystr \<Rightarrow> pyval \<Rightarrow> pyval" where
  "dict_get d k dflt = (case map_of d k of None \<Rightarrow> dflt | Some v \<Rightarrow> v)"

section \<open>String operations of the source\<close>

text \<open>\<open>sub in s\<close>.\<close>

fun occurs_in :: "pystr \<Rightarrow> pystr \<Rightarrow> bool" where
  "occurs_in sub [] = (sub = [])"
| "occurs_in sub (c # cs) = (take (length sub) (c # cs) = sub \<or> occurs_in sub cs)"

text \<open>
  \<open>s.replace(old, new)\<close>: the occurrences of \<open>old\<close> are replaced from the left and do
  not overlap; an empty \<open>old\<close> matches before every character and at the end.
\<close>

function str_replace :: "pystr \<Rightarrow> pystr \<Rightarrow> pystr \<Rightarrow> pystr" where
  "str_replace old new s =
     (if old = [] then new @ concat (map (\<lambda>c. c # new) s)
      else if s = [] then []
      else if take (length old) s = old
        then new @ str_replace old new (drop (length old) s)
      else hd s # str_replace old new (tl s))"
  by pat_completeness auto
termination
  by (relation "measure (\<lambda>(old, new, s). length s)") auto

declare str_replace.simps [simp del]

text \<open>
  \<open>s.split(sep)\<close> for a non-empty separator: \<open>cur\<close> is the part being read. The
  separator is matched from the left, without overlap.
\<close>

function split_from :: "pystr \<Rightarrow> pystr \<Rightarrow> pystr \<Rightarrow> pystr list" where
  "split_from sep cur s =
     (if s = [] then [cur]
      else if sep \<noteq> [] \<and> take (length sep) s = sep
        then cur # split_from sep [] (drop (length sep) s)
      else split_from sep (cur @ [hd s]) (tl s))"
  by pat_completeness auto
termination
  by (relation "measure (\<lambda>(sep, cur, s). length s)") auto

declare split_from.simps [simp del]

text \<open>
  The characters \<open>str.strip()\<close> removes: those for which \<open>str.isspace\<close> holds.
\<close>

definition is_space :: "nat \<Rightarrow> bool" where
  "is_space c \<longleftrightarrow>
     (9 \<le> c \<and> c \<le> 13) \<or> (28 \<le> c \<and> c \<le> 32) \<or> c = 133 \<or> c = 160 \<or> c = 5760 \<or>
     (8192 \<le> c \<and> c \<le> 8202) \<or> c = 8232 \<or> c = 8233 \<or> c = 8239 \<or> c = 8287 \<or> c = 12288"

definition str_strip :: "pystr \<Rightarrow> pystr" where
  "str_strip s = rev (dropWhile is_space (rev (dropWhile is_space s)))"

text \<open>\<open>sep.join(xs)\<close>.\<close>

fun str_join :: "pystr \<Rightarrow> pystr list \<Rightarrow> pystr" where
  "str_join sep [] = []"
| "str_join sep [x] = x"
| "str_join sep (x # y # ys) = x @ sep @ str_join sep (y # ys)"

section \<open>Exceptions, collaborators and the trace of external calls\<close>

datatype exn = ProviderError | ValueError | JSONDecodeError | AttributeError | TypeError | IndexError

text \<open>An exception: its class and \<open>str(e)\<close>.\<close>

datatype error = Error exn pystr

fun message :: "error \<Rightarrow> pystr" where
  "message (Error k m) = m"

datatype model = JsonModel | TextModel

text \<open>
  What \<open>model.generate_content\<close> returns: an object whose \<open>text\<close> accessor yields the
  text or raises (a blocked or empty candidate).
\<close>

datatype response = Response (response_text: "error + pystr")

text \<open>One entry of \<open>YoutubeSearch(...).to_dict()\<close> and one of \<open>DDGS().text(...)\<close>.\<close>

record yt_hit =
  yt_id :: pystr
  yt_title :: pystr
  yt_thumbnails :: "pystr list"

record web_hit =
  w_title :: pystr
  w_href :: pystr

text \<open>
  Everything outside the repository is a field of \<open>world\<close>, so that a theorem about all
  worlds is a theorem about every behaviour of the libraries:
  \<^item> \<open>generate_content n m p\<close> is the outcome of the \<open>n\<close>-th call of the generation API
    (counted from 0), made on model \<open>m\<close> with prompt \<open>p\<close>: an exception or a response;
  \<^item> \<open>json_loads\<close> is \<open>json.loads\<close>;
  \<^item> \<open>youtube_results q n\<close> is \<open>YoutubeSearch(q, max_results=n).to_dict()\<close>;
  \<^item> \<open>ddgs_text q region n\<close> is \<open>DDGS().text(q, region=region, max_results=n)\<close>: the
    call raises or returns the whole list of results;
  \<^item> \<open>urllib_quote\<close> is \<open>urllib.parse.quote\<close> on a string; it returns on every text
    that UTF-8 can encode, and only such texts are meant here;
  \<^item> \<open>format_value\<close> is what an f-string puts for an object that is not a string;
  \<^item> \<open>unicode_lower\<close> is \<open>str.lower\<close> on a string with a character outside ASCII.
\<close>

record world =
  generate_content :: "nat \<Rightarrow> model \<Rightarrow> pystr \<Rightarrow> error + response"
  json_loads :: "pystr \<Rightarrow> error + pyval"
  youtube_results :: "pyval \<Rightarrow> nat \<Rightarrow> error + yt_hit list"
  ddgs_text :: "pyval \<Rightarrow> pystr \<Rightarrow> nat \<Rightarrow> error + web_hit list"
  urllib_quote :: "pystr \<Rightarrow> pystr"
  format_value :: "pyval \<Rightarrow> pystr"
  unicode_lower :: "pystr \<Rightarrow> pystr"

text \<open>
  The external calls a request makes, in order: a call of the generation API, a
  \<open>time.sleep\<close>, a video search, a web search. Every function that reaches a
  collaborator takes the trace so far and returns the extended one.
\<close>

datatype event =
    Generate model pystr
  | Sleep nat
  | VideoSearch pyval nat
  | WebSearch pyval pystr nat

fun is_generate :: "event \<Rightarrow> bool" where
  "is_generate (Generate m p) = True"
| "is_generate e = False"

fun is_search :: "event \<Rightarrow> bool" where
  "is_search (VideoSearch q n) = True"
| "is_search (WebSearch q r n) = True"
| "is_search e = False"

definition api_calls :: "event list \<Rightarrow> nat" where
  "api_calls tr = length (filter is_generate tr)"

section \<open>core/llm.py\<close>

text \<open>The dicts \<open>search_youtube\<close> and \<open>search_web\<close> build.\<close>

record video =
  v_url :: pystr
  v_title :: pystr
  v_thumb :: pystr

record article =
  a_title :: pystr
  a_link :: pystr

text \<open>
  The dataclass \<open>ResourceResult\<close>. Python does not check the annotations, so
  \<open>explanation\<close>, \<open>category\<close> and \<open>book\<close> hold whatever object the constructor is given.
\<close>

record ResourceResult =
  explanation :: pyval
  category :: pyval
  book :: pyval
  videos :: "video list"
  articles :: "article list"

text \<open>
  \<open>GeminiHandler\<close>: the two models exist when the key is non-empty, and every method
  tests the key before it touches them. Building the handler calls no network code.
\<close>

record GeminiHandler =
  api_key :: pystr

text \<open>The \<open>AttributeError\<close> of an attribute access on an object that lacks it.\<close>

fun type_name :: "pyval \<Rightarrow> string" where
  "type_name PNone = ''NoneType''"
| "type_name (PBool b) = ''bool''"
| "type_name (PInt i) = ''int''"
| "type_name (PStr s) = ''str''"
| "type_name (PList xs) = ''list''"
| "type_name (PDict d) = ''dict''"

definition no_attribute :: "pyval \<Rightarrow> string \<Rightarrow> error" where
  "no_attribute v a =
     Error AttributeError
       ([39] @ lit (type_name v) @ [39] @ lit '' object has no attribute '' @ [39] @ lit a @ [39])"

definition quota_error :: "error \<Rightarrow> bool" where
  "quota_error e \<longleftrightarrow> occurs_in (lit ''429'') (message e) \<or> occurs_in (lit ''Quota'') (message e)"

text \<open>
  \<open>_generate_with_retry\<close>: the loop \<open>for attempt in range(retries)\<close>, entered at
  \<open>attempt\<close>. \<open>Inr None\<close> is the \<open>return None\<close> after the loop.
\<close>

function generate_with_retry ::
  "world \<Rightarrow> model \<Rightarrow> pystr \<Rightarrow> nat \<Rightarrow> nat \<Rightarrow> event list \<Rightarrow> (error + response option) \<times> event list"
where
  "generate_with_retry W m prompt retries attempt tr =
     (if attempt < retries then
        (case generate_content W (api_calls tr) m prompt of
           Inr res \<Rightarrow> (Inr (Some res), tr @ [Generate m prompt])
         | Inl e \<Rightarrow>
             if quota_error e \<and> attempt < retries - 1
             then generate_with_retry W m prompt retries (attempt + 1)
                    (tr @ [Generate m prompt, Sleep ((attempt + 1) * 5)])
             else (Inl e, tr @ [Generate m prompt]))
      else (Inr None, tr))"
  by pat_completeness auto
termination
  by (relation "measure (\<lambda>(W, m, prompt, retries, attempt, tr). retries - attempt)") auto

declare generate_with_retry.simps [simp del]

definition analyze_prompt :: "pystr \<Rightarrow> pystr \<Rightarrow> pystr" where
  \<open>analyze_prompt query context =
     lit ''\<newline>'' @
     lit ''        Role: ResourceScout, a helpful and encouraging academic research assistant.\<newline>'' @
     lit ''        Query: '' @ query @
     lit ''\<newline>'' @
     lit ''        Context: '' @ take 50000 context @
     lit ''\<newline>'' @
     lit ''        \<newline>'' @
     lit ''        Instructions:\<newline>'' @
     lit ''        1. If the user input is a greeting (hi, hello), gratitude (thanks), or small talk:\<newline>'' @
     lit ''           - Set "category" to "chat".\<newline>'' @
     lit ''           - Write a warm, friendly response in "explanation" (e.g., "You're welcome! Happy to help you learn.").\<newline>'' @
     lit ''           - Set other fields to null.\<newline>'' @
     lit ''           \<newline>'' @
     lit ''        2. If the user input is an educational question:\<newline>'' @
     lit ''           - Set "category" to "cs", "math", "science", or "general".\<newline>'' @
     lit ''           - Generate the research queries as usual.\<newline>'' @
     lit ''        \<newline>'' @
     lit ''        Return JSON: {\<newline>'' @
     lit ''            "category": "cs|math|science|general|chat",\<newline>'' @
     lit ''            "explanation": "Detailed academic summary (approx 200 words) OR friendly chat response.",\<newline>'' @
     lit ''            "book": "Standard textbook title (or null if chat).",\<newline>'' @
     lit ''            "youtube_query": "Search query for video (or null if chat).",\<newline>'' @
     lit ''            "web_query": "Search query for articles (or null if chat)."\<newline>'' @
     lit ''        }\<newline>'' @
     lit ''        ''\<close>

text \<open>
  \<open>analyze_query\<close>: \<open>PNone\<close> is the \<open>None\<close> of the early return and of the
  \<open>except\<close> clause, which covers the retry helper, \<open>res.text\<close> (also on the
  \<open>None\<close> the helper returns when its loop runs out) and \<open>json.loads\<close>.
\<close>

definition analyze_query ::
  "world \<Rightarrow> GeminiHandler \<Rightarrow> pystr \<Rightarrow> pystr \<Rightarrow> event list \<Rightarrow> pyval \<times> event list"
where
  "analyze_query W h query context tr =
     (if api_key h = [] then (PNone, tr)
      else
        (case generate_with_retry W JsonModel (analyze_prompt query context) 3 0 tr of
           (Inl e, tr') \<Rightarrow> (PNone, tr')
         | (Inr None, tr') \<Rightarrow> (PNone, tr')
         | (Inr (Some res), tr') \<Rightarrow>
             (case response_text res of
                Inl e \<Rightarrow> (PNone, tr')
              | Inr t \<Rightarrow>
                  (case json_loads W t of
                     Inl e \<Rightarrow> (PNone, tr')
                   | Inr v \<Rightarrow> (v, tr')))))"

definition generation_failed :: "error \<Rightarrow> pystr" where
  "generation_failed e = lit ''Generation failed: '' @ message e"

definition generate_text ::
  "world \<Rightarrow> GeminiHandler \<Rightarrow> pystr \<Rightarrow> event list \<Rightarrow> pystr \<times> event list"
where
  "generate_text W h prompt tr =
     (if api_key h = [] then (lit ''API Key missing.'', tr)
      else
        (case generate_with_retry W TextModel prompt 3 0 tr of
           (Inl e, tr') \<Rightarrow> (generation_failed e, tr')
         | (Inr None, tr') \<Rightarrow> (generation_failed (no_attribute PNone ''text''), tr')
         | (Inr (Some res), tr') \<Rightarrow>
             (case response_text res of
                Inl e \<Rightarrow> (generation_failed e, tr')
              | Inr t \<Rightarrow> (t, tr'))))"

section \<open>core/retrieval.py\<close>

definition TRUSTED_SITES :: "(pystr \<times> pystr list) list" where
  "TRUSTED_SITES =
     [(lit ''cs'',
        [lit ''geeksforgeeks.org'', lit ''w3schools.com'', lit ''freecodecamp.org'',
         lit ''stackoverflow.com'', lit ''realpython.com'', lit ''medium.com'',
         lit ''tutorialspoint.com'']),
      (lit ''math'',
        [lit ''khanacademy.org'', lit ''wolfram.com'', lit ''brilliant.org'',
         lit ''libretexts.org'', lit ''tutorial.math.lamar.edu'']),
      (lit ''physics'',
        [lit ''physicsclassroom.com'', lit ''hyperphysics.phy-astr.gsu.edu'',
         lit ''britannica.com'', lit ''nasa.gov'', lit ''cern.ch'']),
      (lit ''general'',
        [lit ''britannica.com'', lit ''bbc.com'', lit ''nytimes.com'', lit ''investopedia.com''])]"

text \<open>\<open>text.encode('ascii')\<close> succeeds exactly when every code point is below 128.\<close>

definition is_english :: "pystr \<Rightarrow> bool" where
  "is_english text \<longleftrightarrow> list_all (\<lambda>c. c < 128) text"

text \<open>
  \<open>str.lower\<close>: on a pure ASCII string the capital letters move to the small ones and
  nothing else changes; any other string is lowered by the Unicode tables.
\<close>

definition ascii_lower :: "nat \<Rightarrow> nat" where
  "ascii_lower c = (if 65 \<le> c \<and> c \<le> 90 then c + 32 else c)"

definition str_lower :: "world \<Rightarrow> pystr \<Rightarrow> pystr" where
  "str_lower W s = (if is_english s then map ascii_lower s else unicode_lower W s)"

text \<open>
  The loop of \<open>search_youtube\<close>. \<open>r['thumbnails'][0]\<close> raises on an entry without
  thumbnails; the \<open>except\<close> clause then ends the loop and what was appended stays.
\<close>

fun collect_videos :: "video list \<Rightarrow> yt_hit list \<Rightarrow> video list" where
  "collect_videos vs [] = vs"
| "collect_videos vs (r # rs) =
     (case yt_thumbnails r of
        [] \<Rightarrow> vs
      | t # ts \<Rightarrow>
          collect_videos
            (vs @ [\<lparr>v_url = lit ''https://www.youtube.com/watch?v='' @ yt_id r,
                    v_title = yt_title r, v_thumb = t\<rparr>]) rs)"

definition search_youtube ::
  "world \<Rightarrow> pyval \<Rightarrow> nat \<Rightarrow> event list \<Rightarrow> video list \<times> event list"
where
  "search_youtube W query max_results tr =
     (case youtube_results W query max_results of
        Inl e \<Rightarrow> ([], tr @ [VideoSearch query max_results])
      | Inr results \<Rightarrow> (collect_videos [] results, tr @ [VideoSearch query max_results]))"

text \<open>The loop both phases of \<open>search_web\<close> run over the results.\<close>

fun collect_links :: "article list \<Rightarrow> web_hit list \<Rightarrow> article list" where
  "collect_links links [] = links"
| "collect_links links (r # rs) =
     (if is_english (w_title r)
      then collect_links (links @ [\<lparr>a_title = w_title r, a_link = w_href r\<rparr>]) rs
      else collect_links links rs)"

text \<open>
  \<open>TRUSTED_SITES.get(category.lower(), TRUSTED_SITES["general"])\<close>: the default is the
  entry stored under \<open>general\<close> (lemma \<open>general_allowlist\<close> below).
\<close>

definition trusted_domains :: "world \<Rightarrow> pystr \<Rightarrow> pystr list" where
  "trusted_domains W categ =
     (case map_of TRUSTED_SITES (str_lower W categ) of
        Some ds \<Rightarrow> ds
      | None \<Rightarrow> [lit ''britannica.com'', lit ''bbc.com'', lit ''nytimes.com'',
                 lit ''investopedia.com''])"

definition site_string :: "pystr list \<Rightarrow> pystr" where
  "site_string ds = str_join (lit '' OR '') (map (\<lambda>d. lit ''site:'' @ d) (take 4 ds))"

text \<open>What \<open>f"{query}"\<close> puts for the query.\<close>

definition fmt :: "world \<Rightarrow> pyval \<Rightarrow> pystr" where
  "fmt W v = (case v of PStr s \<Rightarrow> s | _ \<Rightarrow> format_value W v)"

definition smart_query :: "world \<Rightarrow> pyval \<Rightarrow> pystr \<Rightarrow> pystr" where
  "smart_query W query categ =
     fmt W query @ lit '' ('' @ site_string (trusted_domains W categ) @ lit '')''"

text \<open>The links of one phase: a provider failure is caught and leaves \<open>links\<close> empty.\<close>

definition phase_links :: "world \<Rightarrow> pyval \<Rightarrow> nat \<Rightarrow> article list" where
  "phase_links W q n =
     (case ddgs_text W q (lit ''us-en'') n of
        Inl e \<Rightarrow> []
      | Inr results \<Rightarrow> collect_links [] results)"

text \<open>
  \<open>search_web\<close>. \<open>category.lower()\<close> is outside both \<open>try\<close> blocks and exists on
  strings only.
\<close>

definition search_web ::
  "world \<Rightarrow> pyval \<Rightarrow> pyval \<Rightarrow> event list \<Rightarrow> (error + article list) \<times> event list"
where
  "search_web W query categ tr =
     (case categ of
        PStr c \<Rightarrow>
          (let smart = smart_query W query c;
               tr1 = tr @ [WebSearch (PStr smart) (lit ''us-en'') 4];
               links = phase_links W (PStr smart) 4
           in if links \<noteq> [] then (Inr links, tr1)
              else (Inr (phase_links W query 5), tr1 @ [WebSearch query (lit ''us-en'') 5]))
      | _ \<Rightarrow> (Inl (no_attribute categ ''lower''), tr))"

section \<open>service.py\<close>

definition CMD_SUMMARIZE :: pystr where
  "CMD_SUMMARIZE = lit ''Summarize the uploaded documents.''"

definition CMD_QUIZ :: pystr where
  "CMD_QUIZ = lit ''Generate a quiz based on the context.''"

text \<open>
  The cache wrappers hand back what the wrapped function returns; the trace records the
  search a wrapper stands for. \<open>search_youtube\<close> is called with its default
  \<open>max_results\<close>.
\<close>

definition cached_video_search ::
  "world \<Rightarrow> pyval \<Rightarrow> event list \<Rightarrow> video list \<times> event list"
where
  "cached_video_search W query tr = search_youtube W query 2 tr"

definition cached_web_search ::
  "world \<Rightarrow> pyval \<Rightarrow> pyval \<Rightarrow> event list \<Rightarrow> (error + article list) \<times> event list"
where
  "cached_web_search W query categ tr = search_web W query categ tr"

definition get_llm_handler :: "pystr \<Rightarrow> GeminiHandler" where
  "get_llm_handler key = \<lparr>api_key = key\<rparr>"

text \<open>
  \<open>ensure_links\<close>. \<open>urllib.parse.quote\<close> raises \<open>TypeError\<close> on an object that is
  neither a string nor bytes. The two titles start with the code points U+1F4D6 and
  U+1F393.
\<close>

definition ensure_links :: "world \<Rightarrow> pyval \<Rightarrow> article list \<Rightarrow> error + article list" where
  "ensure_links W topic current_links =
     (if current_links = [] then
        (case topic of
           PStr t \<Rightarrow>
             (let safe_topic = urllib_quote W t
              in Inr [\<lparr>a_title = [128214] @ lit '' Learn '' @ [39] @ t @ [39] @ lit '' on Khan Academy'',
                        a_link = lit ''https://www.khanacademy.org/search?page_search_query='' @ safe_topic\<rparr>,
                      \<lparr>a_title = [127891] @ lit '' Academic Papers: '' @ t,
                        a_link = lit ''https://scholar.google.com/scholar?q='' @ safe_topic\<rparr>])
         | _ \<Rightarrow> Inl (Error TypeError (lit ''quote_from_bytes() expected bytes'')))
      else Inr current_links)"

definition summarize_prompt :: "pystr \<Rightarrow> pystr" where
  "summarize_prompt context =
     lit ''\<newline>'' @
     lit ''        Analyze the document and extract the Technical Syllabus.\<newline>'' @
     lit ''        Ignore admin details. Focus on core modules.\<newline>'' @
     lit ''        \<newline>'' @
     lit ''        Format:\<newline>'' @
     lit ''        1. List 3-5 key technical modules.\<newline>'' @
     lit ''        2. Briefly explain sub-topics.\<newline>'' @
     lit ''        \<newline>'' @
     lit ''        CRITICAL: On the very last line, output the search tag like this:\<newline>'' @
     lit ''        SEARCH_QUERY: <Insert the hardest technical topic here>\<newline>'' @
     lit ''        \<newline>'' @
     lit ''        Document Context:\<newline>'' @
     lit ''        '' @ take 20000 context @
     lit ''\<newline>'' @
     lit ''        ''"

definition quiz_prompt :: "pystr \<Rightarrow> pystr" where
  "quiz_prompt context = lit ''Create a 3-question quiz based on:\<newline>'' @ take 5000 context"

definition fallback_prompt :: "pystr \<Rightarrow> pystr \<Rightarrow> pystr" where
  "fallback_prompt context query =
     lit ''Context: '' @ take 10000 context @ lit ''\<newline>\<newline>User Request: '' @ query"

text \<open>
  Lines 78 to 87 of \<open>handle_request\<close>: the pair \<open>(summary_text, search_topic)\<close>.
  \<open>parts[0]\<close> and \<open>parts[1]\<close> raise \<open>IndexError\<close> on a list that is too short.
\<close>

definition split_search_tag :: "pystr \<Rightarrow> error + pystr \<times> pystr" where
  "split_search_tag full_response =
     (let clean_response =
            str_replace (lit ''**SEARCH_QUERY:**'') (lit ''SEARCH_QUERY:'') full_response
      in if occurs_in (lit ''SEARCH_QUERY:'') clean_response then
           (case split_from (lit ''SEARCH_QUERY:'') [] clean_response of
              p0 # p1 # ps \<Rightarrow> Inr (str_strip p0, str_strip p1)
            | _ \<Rightarrow> Inl (Error IndexError (lit ''list index out of range'')))
         else Inr (full_response, lit ''Computer Science Core''))"

text \<open>Route 1: summaries.\<close>

definition summarize_route ::
  "world \<Rightarrow> GeminiHandler \<Rightarrow> pystr \<Rightarrow> event list \<Rightarrow> (error + ResourceResult) \<times> event list"
where
  "summarize_route W handler context tr =
     (case generate_text W handler (summarize_prompt context) tr of
        (full_response, tr1) \<Rightarrow>
          (case split_search_tag full_response of
             Inl e \<Rightarrow> (Inl e, tr1)
           | Inr (summary_text, search_topic) \<Rightarrow>
               (case cached_video_search W (PStr search_topic) tr1 of
                  (vs, tr2) \<Rightarrow>
                    (case cached_web_search W (PStr search_topic) (PStr (lit ''cs'')) tr2 of
                       (Inl e, tr3) \<Rightarrow> (Inl e, tr3)
                     | (Inr raw_articles, tr3) \<Rightarrow>
                         (case ensure_links W (PStr search_topic) raw_articles of
                            Inl e \<Rightarrow> (Inl e, tr3)
                          | Inr arts \<Rightarrow>
                              (Inr \<lparr>explanation = PStr summary_text,
                                    category = PStr (lit ''Syllabus''),
                                    book = PNone, videos = vs, articles = arts\<rparr>, tr3))))))"

text \<open>Route 2: quiz.\<close>

definition quiz_route ::
  "world \<Rightarrow> GeminiHandler \<Rightarrow> pystr \<Rightarrow> event list \<Rightarrow> (error + ResourceResult) \<times> event list"
where
  "quiz_route W handler context tr =
     (case generate_text W handler (quiz_prompt context) tr of
        (text, tr1) \<Rightarrow>
          (Inr \<lparr>explanation = PStr text, category = PStr (lit ''Quiz''),
                book = PNone, videos = [], articles = []\<rparr>, tr1))"

text \<open>Route 4: the fallback taken when \<open>not data\<close>.\<close>

definition fallback_route ::
  "world \<Rightarrow> GeminiHandler \<Rightarrow> pystr \<Rightarrow> pystr \<Rightarrow> event list \<Rightarrow>
   (error + ResourceResult) \<times> event list"
where
  "fallback_route W handler query context tr =
     (case generate_text W handler (fallback_prompt context query) tr of
        (fallback_text, tr1) \<Rightarrow>
          (case cached_video_search W (PStr query) tr1 of
             (vs, tr2) \<Rightarrow>
               (case cached_web_search W (PStr query) (PStr (lit ''general'')) tr2 of
                  (Inl e, tr3) \<Rightarrow> (Inl e, tr3)
                | (Inr raw_articles, tr3) \<Rightarrow>
                    (case ensure_links W (PStr query) raw_articles of
                       Inl e \<Rightarrow> (Inl e, tr3)
                     | Inr arts \<Rightarrow>
                         (Inr \<lparr>explanation = PStr fallback_text,
                               category = PStr (lit ''general''),
                               book = PNone, videos = vs, articles = arts\<rparr>, tr3)))))"

text \<open>
  Route 5: the flow on a truthy \<open>data\<close>. \<open>data.get\<close> exists on a dict only.
\<close>

definition research_route ::
  "world \<Rightarrow> pystr \<Rightarrow> pyval \<Rightarrow> event list \<Rightarrow> (error + ResourceResult) \<times> event list"
where
  "research_route W query data tr =
     (case data of
        PDict d \<Rightarrow>
          if dict_get d (lit ''category'') PNone = PStr (lit ''chat'') then
            (Inr \<lparr>explanation = dict_get d (lit ''explanation'') (PStr (lit ''Hello!'')),
                  category = PStr (lit ''chat''),
                  book = PNone, videos = [], articles = []\<rparr>, tr)
          else
            (let yt_query =
                   (if truthy (dict_get d (lit ''youtube_query'') PNone)
                    then dict_get d (lit ''youtube_query'') PNone else PStr query);
                 web_query =
                   (if truthy (dict_get d (lit ''web_query'') PNone)
                    then dict_get d (lit ''web_query'') PNone else PStr query)
             in case cached_video_search W yt_query tr of
                  (vs, tr2) \<Rightarrow>
                    (case cached_web_search W web_query
                            (dict_get d (lit ''category'') (PStr (lit ''general''))) tr2 of
                       (Inl e, tr3) \<Rightarrow> (Inl e, tr3)
                     | (Inr raw_articles, tr3) \<Rightarrow>
                         (case ensure_links W web_query raw_articles of
                            Inl e \<Rightarrow> (Inl e, tr3)
                          | Inr arts \<Rightarrow>
                              (Inr \<lparr>explanation = dict_get d (lit ''explanation'') (PStr []),
                                    category = dict_get d (lit ''category'') (PStr (lit ''general'')),
                                    book = dict_get d (lit ''book'') PNone,
                                    videos = vs, articles = arts\<rparr>, tr3))))
      | _ \<Rightarrow> (Inl (no_attribute data ''get''), tr))"

text \<open>
  \<open>handle_request\<close>: \<open>Inl\<close> is an exception that leaves the function, \<open>Inr\<close> the
  \<open>ResourceResult\<close> it returns.
\<close>

definition handle_request ::
  "world \<Rightarrow> pystr \<Rightarrow> pystr \<Rightarrow> pystr \<Rightarrow> event list \<Rightarrow> (error + ResourceResult) \<times> event list"
where
  "handle_request W query context key tr =
     (let handler = get_llm_handler key
      in if query = CMD_SUMMARIZE then summarize_route W handler context tr
         else if query = CMD_QUIZ then quiz_route W handler context tr
         else
           (case analyze_query W handler query context tr of
              (data, tr1) \<Rightarrow>
                if \<not> truthy data then fallback_route W handler query context tr1
                else research_route W query data tr1))"

section \<open>Example worlds\<close>

text \<open>
  \<open>urllib.parse.quote\<close> on text without surrogates: the UTF-8 bytes of every character
  other than letters, digits and \<open>_.-~/\<close> are written as \<open>%XX\<close>.
\<close>

definition hex_digit :: "nat \<Rightarrow> nat" where
  "hex_digit n = (if n < 10 then 48 + n else 55 + n)"

definition utf8 :: "nat \<Rightarrow> nat list" where
  "utf8 c =
     (if c < 128 then [c]
      else if c < 2048 then [192 + c div 64, 128 + c mod 64]
      else if c < 65536 then [224 + c div 4096, 128 + c div 64 mod 64, 128 + c mod 64]
      else [240 + c div 262144, 128 + c div 4096 mod 64, 128 + c div 64 mod 64, 128 + c mod 64])"

definition unreserved :: "nat \<Rightarrow> bool" where
  "unreserved c \<longleftrightarrow>
     (65 \<le> c \<and> c \<le> 90) \<or> (97 \<le> c \<and> c \<le> 122) \<or> (48 \<le> c \<and> c \<le> 57) \<or>
     c = 95 \<or> c = 46 \<or> c = 45 \<or> c = 126 \<or> c = 47"

definition percent_encode :: "pystr \<Rightarrow> pystr" where
  "percent_encode s =
     concat (map (\<lambda>c. if unreserved c then [c]
                        else concat (map (\<lambda>b. [37, hex_digit (b div 16), hex_digit (b mod 16)]) (utf8 c))) s)"

text \<open>A world in which every collaborator fails.\<close>

definition quiet_world :: world where
  "quiet_world =
     \<lparr>generate_content = (\<lambda>n m p. Inl (Error ProviderError (lit ''503 Service Unavailable''))),
      json_loads = (\<lambda>t. Inl (Error JSONDecodeError (lit ''Expecting value''))),
      youtube_results = (\<lambda>q n. Inl (Error ProviderError (lit ''connection refused''))),
      ddgs_text = (\<lambda>q r n. Inl (Error ProviderError (lit ''connection refused''))),
      urllib_quote = percent_encode,
      format_value = (\<lambda>v. lit (type_name v)),
      unicode_lower = (\<lambda>s. s)\<rparr>"

text \<open>The first \<open>k\<close> calls of the generation API hit the quota, the later ones answer.\<close>

definition busy_world :: "nat \<Rightarrow> world" where
  "busy_world k =
     quiet_world
       \<lparr>generate_content :=
          (\<lambda>n m p. if n < k then Inl (Error ProviderError (lit ''429 Resource has been exhausted''))
                    else Inr (Response (Inr (lit ''ok''))))\<rparr>"

text \<open>A video provider with three results that honours \<open>max_results\<close>.\<close>

definition video_world :: world where
  "video_world =
     quiet_world
       \<lparr>youtube_results :=
          (\<lambda>q n. Inr (take n
             [\<lparr>yt_id = lit ''a1'', yt_title = lit ''Graphs 1'', yt_thumbnails = [lit ''t1'']\<rparr>,
              \<lparr>yt_id = lit ''b2'', yt_title = lit ''Graphs 2'', yt_thumbnails = [lit ''t2'']\<rparr>,
              \<lparr>yt_id = lit ''c3'', yt_title = lit ''Graphs 3'', yt_thumbnails = []\<rparr>]))\<rparr>"

text \<open>
  A web provider that answers the trusted query of the general allowlist with one
  English and one Chinese title, the bare query with one French and one English title,
  and fails on every other query.
\<close>

definition web_world :: world where
  "web_world =
     quiet_world
       \<lparr>ddgs_text :=
          (\<lambda>q r n.
             if q = PStr (lit ''graphs (site:britannica.com OR site:bbc.com OR site:nytimes.com OR site:investopedia.com)'')
             then Inr [\<lparr>w_title = lit ''Graph theory'', w_href = lit ''https://www.britannica.com/graphs''\<rparr>,
                       \<lparr>w_title = [22270, 35770], w_href = lit ''https://www.bbc.com/zh''\<rparr>]
             else if q = PStr (lit ''graphs'')
             then Inr [\<lparr>w_title = lit ''Caf'' @ [233], w_href = lit ''https://example.org/cafe''\<rparr>,
                       \<lparr>w_title = lit ''Graphs for all'', w_href = lit ''https://example.org/graphs''\<rparr>]
             else Inl (Error ProviderError (lit ''202 Ratelimit'')))\<rparr>"

text \<open>
  A world whose generation API answers every call with the text \<open>reply\<close>, which
  \<open>json.loads\<close> reads as the value \<open>v\<close>.
\<close>

definition structured_world :: "pystr \<Rightarrow> pyval \<Rightarrow> world" where
  "structured_world reply v =
     quiet_world
       \<lparr>generate_content := (\<lambda>n m p. Inr (Response (Inr reply))),
         json_loads :=
           (\<lambda>t. if t = reply then Inr v else Inl (Error JSONDecodeError (lit ''Expecting value'')))\<rparr>"

text \<open>
  The generation API answers every call with a short syllabus that ends in the bold
  form of the search tag; the video provider is the one of \<open>video_world\<close>.
\<close>

definition syllabus_world :: world where
  "syllabus_world =
     video_world
       \<lparr>generate_content :=
          (\<lambda>n m p. Inr (Response (Inr
             (lit ''1. Graphs\<newline>2. Trees\<newline>**SEARCH_QUERY:** Graph Theory\<newline>''))))\<rparr>"

section \<open>The retry helper\<close>

lemma lit_append: "lit (a @ b) = lit a @ lit b"
  by (simp add: lit_def)

lemma api_calls_generate: "api_calls (tr @ [Generate m p]) = Suc (api_calls tr)"
  by (simp add: api_calls_def)

lemma api_calls_generate_sleep: "api_calls (tr @ [Generate m p, Sleep n]) = Suc (api_calls tr)"
  by (simp add: api_calls_def)

lemma retry_attempts_bounded:
  "api_calls (snd (generate_with_retry W m p retries attempt tr))
   \<le> api_calls tr + (retries - attempt)"
proof (induction W m p retries attempt tr rule: generate_with_retry.induct)
  case (1 W m p retries attempt tr)
  show ?case
  proof (cases "attempt < retries")
    case False
    then show ?thesis by (simp add: generate_with_retry.simps [of W m p retries attempt tr])
  next
    case True
    show ?thesis
    proof (cases "generate_content W (api_calls tr) m p")
      case (Inr res)
      with True show ?thesis
        by (simp add: generate_with_retry.simps [of W m p retries attempt tr] api_calls_generate)
    next
      case (Inl e)
      show ?thesis
      proof (cases "quota_error e \<and> attempt < retries - 1")
        case False
        with True Inl show ?thesis
          by (auto simp add: generate_with_retry.simps [of W m p retries attempt tr]
                api_calls_generate)
      next
        case again: True
        with "1.IH" [OF True Inl] True
        have "api_calls (snd (generate_with_retry W m p retries (attempt + 1)
                 (tr @ [Generate m p, Sleep ((attempt + 1) * 5)])))
              \<le> Suc (api_calls tr) + (retries - (attempt + 1))"
          by (simp add: api_calls_generate_sleep)
        with True Inl again show ?thesis
          by (simp add: generate_with_retry.simps [of W m p retries attempt tr])
      qed
    qed
  qed
qed

lemma retry_step:
  "generate_content W (api_calls tr) m p = Inl e \<Longrightarrow> quota_error e \<Longrightarrow> Suc a < r \<Longrightarrow>
   generate_with_retry W m p r a tr =
   generate_with_retry W m p r (Suc a) (tr @ [Generate m p, Sleep ((a + 1) * 5)])"
  by (auto simp add: generate_with_retry.simps [of W m p r a tr])

lemma retry_raise:
  "generate_content W (api_calls tr) m p = Inl e \<Longrightarrow> a < r \<Longrightarrow>
   \<not> quota_error e \<or> r = Suc a \<Longrightarrow>
   generate_with_retry W m p r a tr = (Inl e, tr @ [Generate m p])"
  by (auto simp add: generate_with_retry.simps [of W m p r a tr])

lemma retry_return:
  "generate_content W (api_calls tr) m p = Inr res \<Longrightarrow> a < r \<Longrightarrow>
   generate_with_retry W m p r a tr = (Inr (Some res), tr @ [Generate m p])"
  by (simp add: generate_with_retry.simps [of W m p r a tr])

text \<open>
  C4. Both generation operations, given a key, make exactly the calls and waits of the
  retry helper run with three attempts from attempt 0. For that run, where
  \<open>api_calls tr\<close> is the number of API calls made before:
  a first answer is returned with no wait; one quota error and then an answer cost one
  wait of 5 seconds; two quota errors and then an answer cost waits of 5 and 10 seconds;
  an error that is no quota error is raised by the first attempt, with no wait and no
  second call; a third error in a row is raised after the waits of 5 and 10 seconds;
  and no more than three calls are ever made.
\<close>

theorem retry_backoff:
  "(generate_content W (api_calls tr) m p = Inr res \<longrightarrow>
      generate_with_retry W m p 3 0 tr = (Inr (Some res), tr @ [Generate m p]))
 \<and> (generate_content W (api_calls tr) m p = Inl e1 \<and> quota_error e1 \<and>
    generate_content W (api_calls tr + 1) m p = Inr res \<longrightarrow>
      generate_with_retry W m p 3 0 tr =
        (Inr (Some res), tr @ [Generate m p, Sleep 5, Generate m p]))
 \<and> (generate_content W (api_calls tr) m p = Inl e1 \<and> quota_error e1 \<and>
    generate_content W (api_calls tr + 1) m p = Inl e2 \<and> quota_error e2 \<and>
    generate_content W (api_calls tr + 2) m p = Inr res \<longrightarrow>
      generate_with_retry W m p 3 0 tr =
        (Inr (Some res), tr @ [Generate m p, Sleep 5, Generate m p, Sleep 10, Generate m p]))
 \<and> (generate_content W (api_calls tr) m p = Inl e1 \<and> \<not> quota_error e1 \<longrightarrow>
      generate_with_retry W m p 3 0 tr = (Inl e1, tr @ [Generate m p]))
 \<and> (generate_content W (api_calls tr) m p = Inl e1 \<and> quota_error e1 \<and>
    generate_content W (api_calls tr + 1) m p = Inl e2 \<and> quota_error e2 \<and>
    generate_content W (api_calls tr + 2) m p = Inl e3 \<longrightarrow>
      generate_with_retry W m p 3 0 tr =
        (Inl e3, tr @ [Generate m p, Sleep 5, Generate m p, Sleep 10, Generate m p]))
 \<and> api_calls (snd (generate_with_retry W m p 3 0 tr)) \<le> api_calls tr + 3
 \<and> (api_key h \<noteq> [] \<longrightarrow>
      snd (generate_text W h p tr) = snd (generate_with_retry W TextModel p 3 0 tr))
 \<and> (api_key h \<noteq> [] \<longrightarrow>
      snd (analyze_query W h q c tr) =
      snd (generate_with_retry W JsonModel (analyze_prompt q c) 3 0 tr))"
proof (intro conjI impI)
  assume "generate_content W (api_calls tr) m p = Inr res"
  then show "generate_with_retry W m p 3 0 tr = (Inr (Some res), tr @ [Generate m p])"
    by (intro retry_return) simp_all
next
  assume a: "generate_content W (api_calls tr) m p = Inl e1 \<and> quota_error e1 \<and>
    generate_content W (api_calls tr + 1) m p = Inr res"
  then have "generate_with_retry W m p 3 0 tr =
     generate_with_retry W m p 3 (Suc 0) (tr @ [Generate m p, Sleep 5])"
    using retry_step [of W tr m p e1 0 3] by simp
  also have "\<dots> = (Inr (Some res), (tr @ [Generate m p, Sleep 5]) @ [Generate m p])"
    using a by (intro retry_return) (simp_all add: api_calls_def)
  finally show "generate_with_retry W m p 3 0 tr =
        (Inr (Some res), tr @ [Generate m p, Sleep 5, Generate m p])" by simp
next
  assume a: "generate_content W (api_calls tr) m p = Inl e1 \<and> quota_error e1 \<and>
    generate_content W (api_calls tr + 1) m p = Inl e2 \<and> quota_error e2 \<and>
    generate_content W (api_calls tr + 2) m p = Inr res"
  then have "generate_with_retry W m p 3 0 tr =
     generate_with_retry W m p 3 (Suc 0) (tr @ [Generate m p, Sleep 5])"
    using retry_step [of W tr m p e1 0 3] by simp
  also have "\<dots> = generate_with_retry W m p 3 (Suc (Suc 0))
       ((tr @ [Generate m p, Sleep 5]) @ [Generate m p, Sleep 10])"
    using a retry_step [of W "tr @ [Generate m p, Sleep 5]" m p e2 "Suc 0" 3]
    by (simp add: api_calls_def)
  also have "\<dots> = (Inr (Some res),
       ((tr @ [Generate m p, Sleep 5]) @ [Generate m p, Sleep 10]) @ [Generate m p])"
    using a by (intro retry_return) (simp_all add: api_calls_def)
  finally show "generate_with_retry W m p 3 0 tr =
        (Inr (Some res), tr @ [Generate m p, Sleep 5, Generate m p, Sleep 10, Generate m p])"
    by simp
next
  assume "generate_content W (api_calls tr) m p = Inl e1 \<and> \<not> quota_error e1"
  then show "generate_with_retry W m p 3 0 tr = (Inl e1, tr @ [Generate m p])"
    using retry_raise [of W tr m p e1 0 3] by simp
next
  assume a: "generate_content W (api_calls tr) m p = Inl e1 \<and> quota_error e1 \<and>
    generate_content W (api_calls tr + 1) m p = Inl e2 \<and> quota_error e2 \<and>
    generate_content W (api_calls tr + 2) m p = Inl e3"
  then have "generate_with_retry W m p 3 0 tr =
     generate_with_retry W m p 3 (Suc 0) (tr @ [Generate m p, Sleep 5])"
    using retry_step [of W tr m p e1 0 3] by simp
  also have "\<dots> = generate_with_retry W m p 3 (Suc (Suc 0))
       ((tr @ [Generate m p, Sleep 5]) @ [Generate m p, Sleep 10])"
    using a retry_step [of W "tr @ [Generate m p, Sleep 5]" m p e2 "Suc 0" 3]
    by (simp add: api_calls_def)
  also have "\<dots> = (Inl e3,
       ((tr @ [Generate m p, Sleep 5]) @ [Generate m p, Sleep 10]) @ [Generate m p])"
    using a
      retry_raise [of W "(tr @ [Generate m p, Sleep 5]) @ [Generate m p, Sleep 10]" m p e3
        "Suc (Suc 0)" 3]
    by (simp add: api_calls_def)
  finally show "generate_with_retry W m p 3 0 tr =
        (Inl e3, tr @ [Generate m p, Sleep 5, Generate m p, Sleep 10, Generate m p])"
    by simp
next
  show "api_calls (snd (generate_with_retry W m p 3 0 tr)) \<le> api_calls tr + 3"
    using retry_attempts_bounded [of W m p 3 0 tr] by simp
next
  assume "api_key h \<noteq> []"
  then show "snd (generate_text W h p tr) = snd (generate_with_retry W TextModel p 3 0 tr)"
    by (simp add: generate_text_def split: prod.splits sum.splits option.splits)
next
  assume "api_key h \<noteq> []"
  then show "snd (analyze_query W h q c tr) =
      snd (generate_with_retry W JsonModel (analyze_prompt q c) 3 0 tr)"
    by (simp add: analyze_query_def split: prod.splits sum.splits option.splits)
qed

theorem retry_backoff_witness:
  "generate_with_retry (busy_world 2) TextModel (lit ''p'') 3 0 [] =
     (Inr (Some (Response (Inr (lit ''ok'')))),
      [Generate TextModel (lit ''p''), Sleep 5, Generate TextModel (lit ''p''), Sleep 10,
       Generate TextModel (lit ''p'')])
 \<and> generate_with_retry (busy_world 1) JsonModel (lit ''p'') 3 0 [] =
     (Inr (Some (Response (Inr (lit ''ok'')))),
      [Generate JsonModel (lit ''p''), Sleep 5, Generate JsonModel (lit ''p'')])
 \<and> generate_with_retry (busy_world 3) TextModel (lit ''p'') 3 0 [] =
     (Inl (Error ProviderError (lit ''429 Resource has been exhausted'')),
      [Generate TextModel (lit ''p''), Sleep 5, Generate TextModel (lit ''p''), Sleep 10,
       Generate TextModel (lit ''p'')])
 \<and> generate_with_retry quiet_world TextModel (lit ''p'') 3 0 [] =
     (Inl (Error ProviderError (lit ''503 Service Unavailable'')), [Generate TextModel (lit ''p'')])
 \<and> snd (generate_text (busy_world 2) \<lparr>api_key = lit ''key''\<rparr> (lit ''p'') []) =
     [Generate TextModel (lit ''p''), Sleep 5, Generate TextModel (lit ''p''), Sleep 10,
      Generate TextModel (lit ''p'')]"
proof -
  let ?q = "Error ProviderError (lit ''429 Resource has been exhausted'')"
  let ?u = "Error ProviderError (lit ''503 Service Unavailable'')"
  let ?ok = "Response (Inr (lit ''ok''))"
  have q: "quota_error ?q" by (simp add: quota_error_def lit_def)
  have u: "\<not> quota_error ?u" by (simp add: quota_error_def lit_def)
  have c0: "api_calls [] = 0" by (simp add: api_calls_def)
  have k: "api_key \<lparr>api_key = lit ''key''\<rparr> \<noteq> []" by (simp add: lit_def)
  show ?thesis
    using retry_backoff [of "busy_world 2" "[]" TextModel "lit ''p''" ?ok ?q ?q ?q
        "\<lparr>api_key = lit ''key''\<rparr>"]
      retry_backoff [of "busy_world 1" "[]" JsonModel "lit ''p''" ?ok ?q ?q ?q]
      retry_backoff [of "busy_world 3" "[]" TextModel "lit ''p''" ?ok ?q ?q ?q]
      retry_backoff [of quiet_world "[]" TextModel "lit ''p''" ?ok ?u ?u ?u]
      q u k
    by (simp add: c0 busy_world_def quiet_world_def)
qed

section \<open>Retrieval\<close>

lemma is_english_examples:
  "is_english (lit ''Hello World'')"
  "\<not> is_english [20320, 22909, 19990, 30028]"
  "\<not> is_english (lit ''Caf'' @ [233])"
  by (simp_all add: is_english_def lit_def)

lemma collect_videos_length: "length (collect_videos vs hits) \<le> length vs + length hits"
proof (induction hits arbitrary: vs)
  case Nil
  show ?case by simp
next
  case (Cons r rs)
  show ?case
  proof (cases "yt_thumbnails r")
    case Nil
    then show ?thesis by simp
  next
    case (Cons t ts)
    with Cons.IH [of "vs @ [\<lparr>v_url = lit ''https://www.youtube.com/watch?v='' @ yt_id r,
                    v_title = yt_title r, v_thumb = t\<rparr>]"]
    show ?thesis by simp
  qed
qed

text \<open>
  Asked for three results, the provider of \<open>video_world\<close> returns a third entry
  without thumbnails: the loop ends there and the two videos before it are kept.
\<close>

lemma search_youtube_keeps_prefix:
  "fst (search_youtube video_world (PStr (lit ''graphs'')) 3 []) =
     [\<lparr>v_url = lit ''https://www.youtube.com/watch?v=a1'', v_title = lit ''Graphs 1'', v_thumb = lit ''t1''\<rparr>,
      \<lparr>v_url = lit ''https://www.youtube.com/watch?v=b2'', v_title = lit ''Graphs 2'', v_thumb = lit ''t2''\<rparr>]"
  by (simp add: search_youtube_def video_world_def quiet_world_def numeral_3_eq_3
        lit_append [symmetric])

lemma search_youtube_le_results:
  "length (fst (search_youtube W q n tr))
   \<le> (case youtube_results W q n of Inl e \<Rightarrow> 0 | Inr hits \<Rightarrow> length hits)"
  using collect_videos_length [of "[]"]
  by (simp add: search_youtube_def split: sum.splits)

text \<open>
  C9. \<open>search_youtube\<close> returns a list on every path, none of its results is an
  exception: the whole body sits in the \<open>try\<close>. The list has at most one video for
  each result of the provider, which is handed \<open>max_results\<close>; so for a provider that
  returns no more results than it is asked for, the list has at most \<open>max_results\<close>
  entries. A failure of the provider gives the empty list. The service layer calls it
  with the default \<open>max_results\<close> of 2.
\<close>

theorem search_youtube_bounded:
  assumes "\<forall>hits. youtube_results W q n = Inr hits \<longrightarrow> length hits \<le> n"
  shows "length (fst (search_youtube W q n tr)) \<le> n
       \<and> (\<forall>e. youtube_results W q n = Inl e \<longrightarrow> fst (search_youtube W q n tr) = [])
       \<and> snd (search_youtube W q n tr) = tr @ [VideoSearch q n]
       \<and> cached_video_search W q tr = search_youtube W q 2 tr"
proof (intro conjI allI impI)
  show "length (fst (search_youtube W q n tr)) \<le> n"
  proof (cases "youtube_results W q n")
    case (Inl e)
    then show ?thesis by (simp add: search_youtube_def)
  next
    case (Inr hits)
    with assms have "length hits \<le> n" by simp
    with search_youtube_le_results [of W q n tr] Inr show ?thesis by simp
  qed
next
  fix e assume "youtube_results W q n = Inl e"
  then show "fst (search_youtube W q n tr) = []" by (simp add: search_youtube_def)
next
  show "snd (search_youtube W q n tr) = tr @ [VideoSearch q n]"
    by (simp add: search_youtube_def split: sum.splits)
next
  show "cached_video_search W q tr = search_youtube W q 2 tr"
    by (simp add: cached_video_search_def)
qed

theorem search_youtube_bounded_witness:
  "(\<exists>hits. youtube_results video_world (PStr (lit ''graphs'')) 2 = Inr hits \<and> length hits \<le> 2)
   \<and> length (fst (search_youtube video_world (PStr (lit ''graphs'')) 2 [])) \<le> 2
   \<and> fst (search_youtube video_world (PStr (lit ''graphs'')) 2 []) =
       [\<lparr>v_url = lit ''https://www.youtube.com/watch?v=a1'', v_title = lit ''Graphs 1'', v_thumb = lit ''t1''\<rparr>,
        \<lparr>v_url = lit ''https://www.youtube.com/watch?v=b2'', v_title = lit ''Graphs 2'', v_thumb = lit ''t2''\<rparr>]
   \<and> fst (search_youtube quiet_world (PStr (lit ''graphs'')) 2 []) = []"
proof -
  have h: "\<forall>hits. youtube_results video_world (PStr (lit ''graphs'')) 2 = Inr hits \<longrightarrow> length hits \<le> 2"
    by (auto simp add: video_world_def quiet_world_def)
  have h': "\<forall>hits. youtube_results quiet_world (PStr (lit ''graphs'')) 2 = Inr hits \<longrightarrow> length hits \<le> 2"
    by (simp add: quiet_world_def)
  have v: "fst (search_youtube video_world (PStr (lit ''graphs'')) 2 []) =
       [\<lparr>v_url = lit ''https://www.youtube.com/watch?v=a1'', v_title = lit ''Graphs 1'', v_thumb = lit ''t1''\<rparr>,
        \<lparr>v_url = lit ''https://www.youtube.com/watch?v=b2'', v_title = lit ''Graphs 2'', v_thumb = lit ''t2''\<rparr>]"
    by (simp add: search_youtube_def video_world_def quiet_world_def numeral_2_eq_2
          lit_append [symmetric])
  have x: "\<exists>hits. youtube_results video_world (PStr (lit ''graphs'')) 2 = Inr hits \<and> length hits \<le> 2"
    by (simp add: video_world_def quiet_world_def)
  show ?thesis
    using search_youtube_bounded [OF h, of "[]"] search_youtube_bounded [OF h', of "[]"] x v
    by (simp add: quiet_world_def)
qed

text \<open>
  C6. On an empty article list \<open>ensure_links\<close> returns exactly two entries, a Khan
  Academy search and a Google Scholar search, whose links end with the URL-escaped
  topic; a non-empty list is returned as it is.
\<close>

theorem ensure_links_failsafe:
  "ensure_links W (PStr topic) [] =
     Inr [\<lparr>a_title = [128214] @ lit '' Learn '' @ [39] @ topic @ [39] @ lit '' on Khan Academy'',
           a_link = lit ''https://www.khanacademy.org/search?page_search_query='' @ urllib_quote W topic\<rparr>,
          \<lparr>a_title = [127891] @ lit '' Academic Papers: '' @ topic,
           a_link = lit ''https://scholar.google.com/scholar?q='' @ urllib_quote W topic\<rparr>]
   \<and> (current_links \<noteq> [] \<longrightarrow> ensure_links W t current_links = Inr current_links)"
  by (simp add: ensure_links_def Let_def)

theorem ensure_links_failsafe_witness:
  "ensure_links quiet_world (PStr (lit ''Graph Theory'')) [] =
     Inr [\<lparr>a_title = [128214] @ lit '' Learn 'Graph Theory' on Khan Academy'',
           a_link = lit ''https://www.khanacademy.org/search?page_search_query=Graph%20Theory''\<rparr>,
          \<lparr>a_title = [127891] @ lit '' Academic Papers: Graph Theory'',
           a_link = lit ''https://scholar.google.com/scholar?q=Graph%20Theory''\<rparr>]
   \<and> [\<lparr>a_title = lit ''Graphs'', a_link = lit ''https://www.britannica.com/graphs''\<rparr>] \<noteq> []
   \<and> ensure_links quiet_world (PStr (lit ''Graph Theory''))
        [\<lparr>a_title = lit ''Graphs'', a_link = lit ''https://www.britannica.com/graphs''\<rparr>] =
      Inr [\<lparr>a_title = lit ''Graphs'', a_link = lit ''https://www.britannica.com/graphs''\<rparr>]"
proof -
  have q: "urllib_quote quiet_world (lit ''Graph Theory'') = lit ''Graph%20Theory''"
    by (simp add: quiet_world_def percent_encode_def lit_def unreserved_def utf8_def hex_digit_def)
  show ?thesis
    using ensure_links_failsafe [of quiet_world "lit ''Graph Theory''"
        "[\<lparr>a_title = lit ''Graphs'', a_link = lit ''https://www.britannica.com/graphs''\<rparr>]"
        "PStr (lit ''Graph Theory'')"] q
    by (simp add: lit_def)
qed

lemma collect_links_filter:
  "collect_links links rs =
   links @ map (\<lambda>r. \<lparr>a_title = w_title r, a_link = w_href r\<rparr>)
             (filter (\<lambda>r. is_english (w_title r)) rs)"
  by (induction rs arbitrary: links) simp_all

lemma phase_links_english: "l \<in> set (phase_links W q n) \<Longrightarrow> is_english (a_title l)"
  by (auto simp add: phase_links_def collect_links_filter split: sum.splits)

lemma general_allowlist:
  "map_of TRUSTED_SITES (lit ''general'') =
   Some [lit ''britannica.com'', lit ''bbc.com'', lit ''nytimes.com'', lit ''investopedia.com'']"
  by (simp add: TRUSTED_SITES_def lit_def)

lemma trusted_domains_allowlisted:
  "\<exists>k. (k, trusted_domains W c) \<in> set TRUSTED_SITES"
proof (cases "map_of TRUSTED_SITES (str_lower W c)")
  case None
  then have "trusted_domains W c =
     [lit ''britannica.com'', lit ''bbc.com'', lit ''nytimes.com'', lit ''investopedia.com'']"
    by (simp add: trusted_domains_def)
  with map_of_SomeD [OF general_allowlist] show ?thesis by auto
next
  case (Some ds)
  then have "trusted_domains W c = ds" by (simp add: trusted_domains_def)
  with map_of_SomeD [OF Some] show ?thesis by auto
qed

lemma search_web_unfold:
  "search_web W q (PStr c) tr =
     (if phase_links W (PStr (smart_query W q c)) 4 \<noteq> []
      then (Inr (phase_links W (PStr (smart_query W q c)) 4),
            tr @ [WebSearch (PStr (smart_query W q c)) (lit ''us-en'') 4])
      else (Inr (phase_links W q 5),
            tr @ [WebSearch (PStr (smart_query W q c)) (lit ''us-en'') 4,
                  WebSearch q (lit ''us-en'') 5]))"
  by (simp add: search_web_def Let_def)

text \<open>
  C5. With \<open>smart\<close> the query of the trusted phase (the query, then the site filter
  over the first four domains of the category's allowlist) and \<open>survivors\<close> the results
  of a search whose title is pure ASCII (none when the provider fails): if the trusted
  phase has a survivor, \<open>search_web\<close> returns the survivors of that phase after the one
  search with region \<open>us-en\<close> and 4 results; if it has none, a second, unrestricted
  search with region \<open>us-en\<close> and 5 results follows and its survivors are returned.
  Either way the result is a list, never an exception, and every title in it is pure
  ASCII.
\<close>

theorem search_web_phases:
  "let sites = take 4 (trusted_domains W c);
       smart = fmt W q @ lit '' ('' @ str_join (lit '' OR '') (map (\<lambda>d. lit ''site:'' @ d) sites) @ lit '')'';
       phaseA = WebSearch (PStr smart) (lit ''us-en'') 4;
       phaseB = WebSearch q (lit ''us-en'') 5;
       survivors = (\<lambda>reply. case reply of
                        Inl e \<Rightarrow> []
                      | Inr results \<Rightarrow>
                          map (\<lambda>r. \<lparr>a_title = w_title r, a_link = w_href r\<rparr>)
                            (filter (\<lambda>r. is_english (w_title r)) results));
       linksA = survivors (ddgs_text W (PStr smart) (lit ''us-en'') 4);
       linksB = survivors (ddgs_text W q (lit ''us-en'') 5)
   in length sites \<le> 4
    \<and> (\<exists>k ds. (k, ds) \<in> set TRUSTED_SITES \<and> set sites \<subseteq> set ds)
    \<and> (linksA \<noteq> [] \<longrightarrow> search_web W q (PStr c) tr = (Inr linksA, tr @ [phaseA]))
    \<and> (linksA = [] \<longrightarrow> search_web W q (PStr c) tr = (Inr linksB, tr @ [phaseA, phaseB]))
    \<and> (\<exists>links tr'. search_web W q (PStr c) tr = (Inr links, tr')
          \<and> (\<forall>l \<in> set links. is_english (a_title l)))"
proof -
  define sites where "sites = take 4 (trusted_domains W c)"
  define survivors where "survivors = (\<lambda>reply :: error + web_hit list. case reply of
                        Inl e \<Rightarrow> []
                      | Inr results \<Rightarrow>
                          map (\<lambda>r. \<lparr>a_title = w_title r, a_link = w_href r\<rparr>)
                            (filter (\<lambda>r. is_english (w_title r)) results))"
  have smart: "fmt W q @ lit '' ('' @ str_join (lit '' OR '') (map (\<lambda>d. lit ''site:'' @ d) sites) @ lit '')''
      = smart_query W q c"
    by (simp add: smart_query_def site_string_def sites_def)
  have phase: "survivors (ddgs_text W x (lit ''us-en'') n) = phase_links W x n" for x n
    by (simp add: survivors_def phase_links_def collect_links_filter split: sum.splits)
  have len: "length sites \<le> 4" by (simp add: sites_def)
  obtain k where k: "(k, trusted_domains W c) \<in> set TRUSTED_SITES"
    using trusted_domains_allowlisted by blast
  have "set sites \<subseteq> set (trusted_domains W c)"
    by (simp add: sites_def set_take_subset)
  with k have allow: "\<exists>k ds. (k, ds) \<in> set TRUSTED_SITES \<and> set sites \<subseteq> set ds"
    by blast
  have a: "phase_links W (PStr (smart_query W q c)) 4 \<noteq> [] \<longrightarrow>
      search_web W q (PStr c) tr =
        (Inr (phase_links W (PStr (smart_query W q c)) 4),
         tr @ [WebSearch (PStr (smart_query W q c)) (lit ''us-en'') 4])"
    by (simp add: search_web_unfold)
  have b: "phase_links W (PStr (smart_query W q c)) 4 = [] \<longrightarrow>
      search_web W q (PStr c) tr =
        (Inr (phase_links W q 5),
         tr @ [WebSearch (PStr (smart_query W q c)) (lit ''us-en'') 4, WebSearch q (lit ''us-en'') 5])"
    by (simp add: search_web_unfold)
  have e: "\<exists>links tr'. search_web W q (PStr c) tr = (Inr links, tr')
          \<and> (\<forall>l \<in> set links. is_english (a_title l))"
    by (auto simp add: search_web_unfold phase_links_english)
  show ?thesis
    unfolding Let_def sites_def [symmetric] survivors_def [symmetric] smart phase
    using len allow a b e by blast
qed

lemma lit_eq_iff: "lit a = lit b \<longleftrightarrow> a = b"
  by (simp add: lit_def inj_map_eq_map inj_on_def)

theorem search_web_phases_witness:
  "search_web web_world (PStr (lit ''graphs'')) (PStr (lit ''general'')) [] =
     (Inr [\<lparr>a_title = lit ''Graph theory'', a_link = lit ''https://www.britannica.com/graphs''\<rparr>],
      [WebSearch (PStr (lit ''graphs (site:britannica.com OR site:bbc.com OR site:nytimes.com OR site:investopedia.com)''))
         (lit ''us-en'') 4])
 \<and> search_web web_world (PStr (lit ''graphs'')) (PStr (lit ''cs'')) [] =
     (Inr [\<lparr>a_title = lit ''Graphs for all'', a_link = lit ''https://example.org/graphs''\<rparr>],
      [WebSearch (PStr (lit ''graphs (site:geeksforgeeks.org OR site:w3schools.com OR site:freecodecamp.org OR site:stackoverflow.com)''))
         (lit ''us-en'') 4,
       WebSearch (PStr (lit ''graphs'')) (lit ''us-en'') 5])"
proof -
  have lg: "str_lower web_world (lit ''general'') = lit ''general''"
    by (simp add: str_lower_def is_english_def ascii_lower_def lit_def)
  have lc: "str_lower web_world (lit ''cs'') = lit ''cs''"
    by (simp add: str_lower_def is_english_def ascii_lower_def lit_def)
  have tg: "take 4 (trusted_domains web_world (lit ''general'')) =
      [lit ''britannica.com'', lit ''bbc.com'', lit ''nytimes.com'', lit ''investopedia.com'']"
    by (simp add: trusted_domains_def lg TRUSTED_SITES_def lit_eq_iff)
  have tc: "take 4 (trusted_domains web_world (lit ''cs'')) =
      [lit ''geeksforgeeks.org'', lit ''w3schools.com'', lit ''freecodecamp.org'', lit ''stackoverflow.com'']"
    by (simp add: trusted_domains_def lc TRUSTED_SITES_def lit_eq_iff)
  have e1: "is_english (lit ''Graph theory'')" "is_english (lit ''Graphs for all'')"
    "\<not> is_english [22270, 35770]" "\<not> is_english (lit ''Caf'' @ [233])"
    by (simp_all add: is_english_def lit_def)
  have dA: "ddgs_text web_world
       (PStr (lit ''graphs (site:britannica.com OR site:bbc.com OR site:nytimes.com OR site:investopedia.com)'')) r n =
       Inr [\<lparr>w_title = lit ''Graph theory'', w_href = lit ''https://www.britannica.com/graphs''\<rparr>,
            \<lparr>w_title = [22270, 35770], w_href = lit ''https://www.bbc.com/zh''\<rparr>]" for r n
    by (simp add: web_world_def)
  have dB: "ddgs_text web_world (PStr (lit ''graphs'')) r n =
       Inr [\<lparr>w_title = lit ''Caf'' @ [233], w_href = lit ''https://example.org/cafe''\<rparr>,
            \<lparr>w_title = lit ''Graphs for all'', w_href = lit ''https://example.org/graphs''\<rparr>]" for r n
    by (simp add: web_world_def lit_eq_iff)
  have dC: "ddgs_text web_world
       (PStr (lit ''graphs (site:geeksforgeeks.org OR site:w3schools.com OR site:freecodecamp.org OR site:stackoverflow.com)'')) r n =
       Inl (Error ProviderError (lit ''202 Ratelimit''))" for r n
    by (simp add: web_world_def lit_eq_iff)
  show ?thesis
    using search_web_phases [of web_world "lit ''general''" "PStr (lit ''graphs'')" "[]"]
      search_web_phases [of web_world "lit ''cs''" "PStr (lit ''graphs'')" "[]"]
    by (simp add: Let_def tg tc fmt_def lit_append [symmetric] dA dB dC e1)
qed

text \<open>
  C10. \<open>search_web\<close> builds the site filter of its trusted phase from the allowlist
  stored under the lowered category, and from the general allowlist when the lowered
  category is none of \<open>cs\<close>, \<open>math\<close>, \<open>physics\<close> and \<open>general\<close>. With
  \<open>trusted smart\<close> what \<open>search_web\<close> does once the query of its trusted phase is
  \<open>smart\<close> (that search, its ASCII-titled results if there are any, else the
  unrestricted search): for the category \<open>science\<close> the trusted query is the query
  followed by the filter over britannica.com, bbc.com, nytimes.com and investopedia.com,
  while \<open>CS\<close> in capitals gets the first four sites of the \<open>cs\<close> list.
\<close>

theorem trusted_domains_fallback:
  "let region = lit ''us-en'';
       survivors = (\<lambda>reply. case reply of
                        Inl e \<Rightarrow> []
                      | Inr results \<Rightarrow>
                          map (\<lambda>r. \<lparr>a_title = w_title r, a_link = w_href r\<rparr>)
                            (filter (\<lambda>r. is_english (w_title r)) results));
       trusted = (\<lambda>smart.
                    if survivors (ddgs_text W (PStr smart) region 4) \<noteq> []
                    then (Inr (survivors (ddgs_text W (PStr smart) region 4)),
                          tr @ [WebSearch (PStr smart) region 4])
                    else (Inr (survivors (ddgs_text W q region 5)),
                          tr @ [WebSearch (PStr smart) region 4, WebSearch q region 5]))
   in search_web W q (PStr c) tr =
        trusted (fmt W q @ lit '' ('' @
                 str_join (lit '' OR '')
                   (map (\<lambda>d. lit ''site:'' @ d)
                      (take 4 (case map_of TRUSTED_SITES (str_lower W c) of
                                 Some ds \<Rightarrow> ds
                               | None \<Rightarrow> [lit ''britannica.com'', lit ''bbc.com'',
                                           lit ''nytimes.com'', lit ''investopedia.com'']))) @
                 lit '')'')
    \<and> (str_lower W c \<notin> {lit ''cs'', lit ''math'', lit ''physics'', lit ''general''} \<longrightarrow>
          search_web W q (PStr c) tr =
            trusted (fmt W q @
              lit '' (site:britannica.com OR site:bbc.com OR site:nytimes.com OR site:investopedia.com)''))
    \<and> search_web W q (PStr (lit ''science'')) tr =
          trusted (fmt W q @
            lit '' (site:britannica.com OR site:bbc.com OR site:nytimes.com OR site:investopedia.com)'')
    \<and> search_web W q (PStr (lit ''CS'')) tr =
          trusted (fmt W q @
            lit '' (site:geeksforgeeks.org OR site:w3schools.com OR site:freecodecamp.org OR site:stackoverflow.com)'')"
proof -
  define survivors where "survivors = (\<lambda>reply :: error + web_hit list. case reply of
                        Inl e \<Rightarrow> []
                      | Inr results \<Rightarrow>
                          map (\<lambda>r. \<lparr>a_title = w_title r, a_link = w_href r\<rparr>)
                            (filter (\<lambda>r. is_english (w_title r)) results))"
  define trusted where "trusted = (\<lambda>smart.
                    if survivors (ddgs_text W (PStr smart) (lit ''us-en'') 4) \<noteq> []
                    then (Inr (survivors (ddgs_text W (PStr smart) (lit ''us-en'') 4))
                            :: error + article list,
                          tr @ [WebSearch (PStr smart) (lit ''us-en'') 4])
                    else (Inr (survivors (ddgs_text W q (lit ''us-en'') 5)),
                          tr @ [WebSearch (PStr smart) (lit ''us-en'') 4,
                                WebSearch q (lit ''us-en'') 5]))"
  have phase: "phase_links W x n = survivors (ddgs_text W x (lit ''us-en'') n)" for x n
    by (simp add: survivors_def phase_links_def collect_links_filter split: sum.splits)
  have web: "search_web W q (PStr k) tr = trusted (smart_query W q k)" for k
    by (simp add: search_web_unfold trusted_def phase)
  have a: "search_web W q (PStr c) tr =
        trusted (fmt W q @ lit '' ('' @
                 str_join (lit '' OR '')
                   (map (\<lambda>d. lit ''site:'' @ d)
                      (take 4 (case map_of TRUSTED_SITES (str_lower W c) of
                                 Some ds \<Rightarrow> ds
                               | None \<Rightarrow> [lit ''britannica.com'', lit ''bbc.com'',
                                           lit ''nytimes.com'', lit ''investopedia.com'']))) @
                 lit '')'')"
    by (simp add: web smart_query_def site_string_def trusted_domains_def)
  have g: "str_lower W k \<notin> {lit ''cs'', lit ''math'', lit ''physics'', lit ''general''} \<Longrightarrow>
      smart_query W q k = fmt W q @
        lit '' (site:britannica.com OR site:bbc.com OR site:nytimes.com OR site:investopedia.com)''"
    for k
  proof -
    assume "str_lower W k \<notin> {lit ''cs'', lit ''math'', lit ''physics'', lit ''general''}"
    then have "map_of TRUSTED_SITES (str_lower W k) = None"
      by (simp add: TRUSTED_SITES_def)
    then show ?thesis
      by (simp add: smart_query_def trusted_domains_def site_string_def lit_append [symmetric])
  qed
  have b: "str_lower W c \<notin> {lit ''cs'', lit ''math'', lit ''physics'', lit ''general''} \<longrightarrow>
          search_web W q (PStr c) tr =
            trusted (fmt W q @
              lit '' (site:britannica.com OR site:bbc.com OR site:nytimes.com OR site:investopedia.com)'')"
    by (simp add: web g)
  have "str_lower W (lit ''science'') = lit ''science''"
    by (simp add: str_lower_def is_english_def ascii_lower_def lit_def)
  then have "str_lower W (lit ''science'') \<notin> {lit ''cs'', lit ''math'', lit ''physics'', lit ''general''}"
    by (simp add: lit_eq_iff)
  then have "smart_query W q (lit ''science'') = fmt W q @
        lit '' (site:britannica.com OR site:bbc.com OR site:nytimes.com OR site:investopedia.com)''"
    by (rule g)
  then have s: "search_web W q (PStr (lit ''science'')) tr =
          trusted (fmt W q @
            lit '' (site:britannica.com OR site:bbc.com OR site:nytimes.com OR site:investopedia.com)'')"
    by (simp add: web)
  have l: "str_lower W (lit ''CS'') = lit ''cs''"
    by (simp add: str_lower_def is_english_def ascii_lower_def lit_def)
  have n: "map_of TRUSTED_SITES (lit ''cs'') =
        Some [lit ''geeksforgeeks.org'', lit ''w3schools.com'', lit ''freecodecamp.org'',
         lit ''stackoverflow.com'', lit ''realpython.com'', lit ''medium.com'',
         lit ''tutorialspoint.com'']"
    by (simp add: TRUSTED_SITES_def)
  have u: "search_web W q (PStr (lit ''CS'')) tr =
          trusted (fmt W q @
            lit '' (site:geeksforgeeks.org OR site:w3schools.com OR site:freecodecamp.org OR site:stackoverflow.com)'')"
    by (simp add: web smart_query_def trusted_domains_def l n site_string_def
          lit_append [symmetric])
  show ?thesis
    using a b s u unfolding Let_def trusted_def survivors_def by simp
qed

theorem trusted_domains_fallback_witness:
  "str_lower web_world (lit ''Biology'') \<notin> {lit ''cs'', lit ''math'', lit ''physics'', lit ''general''}
 \<and> search_web web_world (PStr (lit ''graphs'')) (PStr (lit ''Biology'')) [] =
     (Inr [\<lparr>a_title = lit ''Graph theory'', a_link = lit ''https://www.britannica.com/graphs''\<rparr>],
      [WebSearch (PStr (lit ''graphs (site:britannica.com OR site:bbc.com OR site:nytimes.com OR site:investopedia.com)''))
         (lit ''us-en'') 4])
 \<and> search_web web_world (PStr (lit ''graphs'')) (PStr (lit ''science'')) [] =
     (Inr [\<lparr>a_title = lit ''Graph theory'', a_link = lit ''https://www.britannica.com/graphs''\<rparr>],
      [WebSearch (PStr (lit ''graphs (site:britannica.com OR site:bbc.com OR site:nytimes.com OR site:investopedia.com)''))
         (lit ''us-en'') 4])"
proof -
  have l: "str_lower web_world (lit ''Biology'') = lit ''biology''"
    by (simp add: str_lower_def is_english_def ascii_lower_def lit_def)
  have n: "lit ''biology'' \<notin> {lit ''cs'', lit ''math'', lit ''physics'', lit ''general''}"
    by (simp add: lit_eq_iff)
  have e1: "is_english (lit ''Graph theory'')" "\<not> is_english [22270, 35770]"
    by (simp_all add: is_english_def lit_def)
  have mb: "map_of TRUSTED_SITES (lit ''biology'') = None"
    by (simp add: TRUSTED_SITES_def lit_eq_iff)
  have dA: "ddgs_text web_world
       (PStr (lit ''graphs (site:britannica.com OR site:bbc.com OR site:nytimes.com OR site:investopedia.com)'')) r k =
       Inr [\<lparr>w_title = lit ''Graph theory'', w_href = lit ''https://www.britannica.com/graphs''\<rparr>,
            \<lparr>w_title = [22270, 35770], w_href = lit ''https://www.bbc.com/zh''\<rparr>]" for r k
    by (simp add: web_world_def)
  show ?thesis
    using trusted_domains_fallback
        [where W = web_world and q = "PStr (lit ''graphs'')" and tr = "[]" and c = "lit ''Biology''"]
      l n
    by (simp add: Let_def fmt_def mb lit_append [symmetric] dA e1)
qed

section \<open>Splitting at the search tag\<close>

lemma occurs_in_length: "occurs_in sub s \<Longrightarrow> length sub \<le> length s"
proof (induction s)
  case Nil
  then show ?case by simp
next
  case (Cons c cs)
  from Cons.prems have "take (length sub) (c # cs) = sub \<or> occurs_in sub cs" by simp
  then show ?case
  proof
    assume "take (length sub) (c # cs) = sub"
    then have "length sub = length (take (length sub) (c # cs))" by simp
    then show ?thesis by simp
  next
    assume "occurs_in sub cs"
    with Cons.IH show ?thesis by simp
  qed
qed

lemma occurs_in_iff: "occurs_in sub s \<longleftrightarrow> (\<exists>pre suf. s = pre @ sub @ suf)"
proof
  assume "occurs_in sub s"
  then show "\<exists>pre suf. s = pre @ sub @ suf"
  proof (induction s)
    case Nil
    then show ?case by simp
  next
    case (Cons c cs)
    from Cons.prems have "take (length sub) (c # cs) = sub \<or> occurs_in sub cs" by simp
    then show ?case
    proof
      assume "take (length sub) (c # cs) = sub"
      then have "c # cs = [] @ sub @ drop (length sub) (c # cs)"
        by (metis append_Nil append_take_drop_id)
      then show ?thesis by blast
    next
      assume "occurs_in sub cs"
      with Cons.IH obtain pre suf where "cs = pre @ sub @ suf" by blast
      then have "c # cs = (c # pre) @ sub @ suf" by simp
      then show ?thesis by blast
    qed
  qed
next
  assume "\<exists>pre suf. s = pre @ sub @ suf"
  then obtain pre suf where s: "s = pre @ sub @ suf" by blast
  show "occurs_in sub s"
    unfolding s
  proof (induction pre)
    case Nil
    show ?case
    proof (cases "sub @ suf")
      case Nil
      then show ?thesis by simp
    next
      case (Cons a list)
      then have "take (length sub) (a # list) = sub" by (metis append_eq_conv_conj)
      with Cons show ?thesis by simp
    qed
  next
    case (Cons c pre)
    then show ?case by simp
  qed
qed

lemma split_from_absent: "\<not> occurs_in sep s \<Longrightarrow> split_from sep cur s = [cur @ s]"
proof (induction s arbitrary: cur)
  case Nil
  show ?case by (simp add: split_from.simps [of sep cur "[]"])
next
  case (Cons c cs)
  from Cons.prems have n: "take (length sep) (c # cs) \<noteq> sep" and r: "\<not> occurs_in sep cs"
    by simp_all
  from n have "split_from sep cur (c # cs) = split_from sep (cur @ [c]) cs"
    by (simp add: split_from.simps [of sep cur "c # cs"])
  with Cons.IH [OF r, of "cur @ [c]"] show ?case by simp
qed

lemma split_from_first:
  assumes "sep \<noteq> []" and "\<not> occurs_in sep (pre @ butlast sep)"
  shows "split_from sep cur (pre @ sep @ rest) = (cur @ pre) # split_from sep [] rest"
  using assms(2)
proof (induction pre arbitrary: cur)
  case Nil
  from assms(1) show ?case by (simp add: split_from.simps [of sep cur "sep @ rest"])
next
  case (Cons c pre)
  from Cons.prems
  have n: "take (length sep) (c # pre @ butlast sep) \<noteq> sep"
    and r: "\<not> occurs_in sep (pre @ butlast sep)"
    by simp_all
  from assms(1) have "sep = butlast sep @ [last sep]" by simp
  then have "c # pre @ sep @ rest = (c # pre @ butlast sep) @ ([last sep] @ rest)"
    by (metis append.assoc append_Cons)
  moreover from assms(1) have "length sep \<le> length (c # pre @ butlast sep)" by simp
  ultimately have "take (length sep) (c # pre @ sep @ rest) = take (length sep) (c # pre @ butlast sep)"
    by (metis take_append diff_is_0_eq take_0 append_Nil2)
  with n have "take (length sep) (c # pre @ sep @ rest) \<noteq> sep" by simp
  then have "split_from sep cur ((c # pre) @ sep @ rest) = split_from sep (cur @ [c]) (pre @ sep @ rest)"
    by (simp add: split_from.simps [of sep cur "c # pre @ sep @ rest"])
  with Cons.IH [OF r, of "cur @ [c]"] show ?case by simp
qed

lemma first_occurrence:
  assumes "sep \<noteq> []"
  shows "occurs_in sep s \<Longrightarrow> \<exists>pre rest. s = pre @ sep @ rest \<and> \<not> occurs_in sep (pre @ butlast sep)"
proof (induction s)
  case Nil
  with assms show ?case by simp
next
  case (Cons c cs)
  show ?case
  proof (cases "take (length sep) (c # cs) = sep")
    case True
    then have "c # cs = [] @ sep @ drop (length sep) (c # cs)"
      by (metis append_Nil append_take_drop_id)
    moreover have "\<not> occurs_in sep ([] @ butlast sep)"
    proof
      assume "occurs_in sep ([] @ butlast sep)"
      then have "occurs_in sep (butlast sep)" by simp
      then have "length sep \<le> length (butlast sep)" by (rule occurs_in_length)
      with assms show False by (cases sep) (simp_all split: if_splits)
    qed
    ultimately show ?thesis by blast
  next
    case False
    with Cons.prems have "occurs_in sep cs" by simp
    with Cons.IH obtain pre rest where
      cs: "cs = pre @ sep @ rest" and n: "\<not> occurs_in sep (pre @ butlast sep)" by blast
    from assms have "sep = butlast sep @ [last sep]" by simp
    then have "c # cs = (c # pre @ butlast sep) @ ([last sep] @ rest)"
      using cs by (metis append.assoc append_Cons)
    moreover from assms have "length sep \<le> length (c # pre @ butlast sep)" by simp
    ultimately have "take (length sep) (c # cs) = take (length sep) (c # pre @ butlast sep)"
      by (metis take_append diff_is_0_eq take_0 append_Nil2)
    with False have "take (length sep) (c # pre @ butlast sep) \<noteq> sep" by simp
    with n have "\<not> occurs_in sep ((c # pre) @ butlast sep)" by simp
    moreover from cs have "c # cs = (c # pre) @ sep @ rest" by simp
    ultimately show ?thesis by blast
  qed
qed

section \<open>The routes of handle\_request\<close>

lemma retry_no_search:
  "filter is_search (snd (generate_with_retry W m p retries attempt tr)) = filter is_search tr"
proof (induction W m p retries attempt tr rule: generate_with_retry.induct)
  case (1 W m p retries attempt tr)
  show ?case
  proof (cases "attempt < retries")
    case False
    then show ?thesis by (simp add: generate_with_retry.simps [of W m p retries attempt tr])
  next
    case True
    show ?thesis
    proof (cases "generate_content W (api_calls tr) m p")
      case (Inr res)
      with True show ?thesis
        by (simp add: generate_with_retry.simps [of W m p retries attempt tr])
    next
      case (Inl e)
      show ?thesis
      proof (cases "quota_error e \<and> attempt < retries - 1")
        case False
        with True Inl show ?thesis
          by (auto simp add: generate_with_retry.simps [of W m p retries attempt tr])
      next
        case again: True
        with "1.IH" [OF True Inl] True Inl show ?thesis
          by (simp add: generate_with_retry.simps [of W m p retries attempt tr])
      qed
    qed
  qed
qed

lemma generate_text_no_search:
  "filter is_search (snd (generate_text W h p tr)) = filter is_search tr"
  using retry_no_search [of W TextModel p 3 0 tr]
  by (auto simp add: generate_text_def split: prod.splits sum.splits option.splits)

lemma analyze_query_no_search:
  "filter is_search (snd (analyze_query W h q c tr)) = filter is_search tr"
  using retry_no_search [of W JsonModel "analyze_prompt q c" 3 0 tr]
  by (auto simp add: analyze_query_def split: prod.splits sum.splits option.splits)

lemma sentinels_differ: "CMD_QUIZ \<noteq> CMD_SUMMARIZE"
  by (simp add: CMD_QUIZ_def CMD_SUMMARIZE_def lit_eq_iff)

text \<open>
  C8. On the quiz sentinel \<open>handle_request\<close> returns, for every context and key, the
  result with category \<open>Quiz\<close>, no videos and no articles, whose explanation is what
  \<open>generate_text\<close> returns for the prompt "Create a 3-question quiz based on:", a
  newline and the first 5000 characters of the context; the trace gains no search.
\<close>

theorem quiz_route_result:
  "handle_request W CMD_QUIZ context key tr =
     (Inr \<lparr>explanation =
             PStr (fst (generate_text W (get_llm_handler key)
                          (lit ''Create a 3-question quiz based on:\<newline>'' @ take 5000 context) tr)),
           category = PStr (lit ''Quiz''), book = PNone, videos = [], articles = []\<rparr>,
      snd (generate_text W (get_llm_handler key)
             (lit ''Create a 3-question quiz based on:\<newline>'' @ take 5000 context) tr))
 \<and> filter is_search (snd (handle_request W CMD_QUIZ context key tr)) = filter is_search tr"
proof -
  have r: "handle_request W CMD_QUIZ context key tr =
     (Inr \<lparr>explanation =
             PStr (fst (generate_text W (get_llm_handler key)
                          (lit ''Create a 3-question quiz based on:\<newline>'' @ take 5000 context) tr)),
           category = PStr (lit ''Quiz''), book = PNone, videos = [], articles = []\<rparr>,
      snd (generate_text W (get_llm_handler key)
             (lit ''Create a 3-question quiz based on:\<newline>'' @ take 5000 context) tr))"
    by (simp add: handle_request_def sentinels_differ quiz_route_def quiz_prompt_def
          split: prod.splits)
  show ?thesis
    unfolding r by (simp add: generate_text_no_search)
qed

theorem quiz_route_result_witness:
  "handle_request (busy_world 1) CMD_QUIZ (lit ''Trees and graphs'') (lit ''key'') [] =
     (Inr \<lparr>explanation = PStr (lit ''ok''), category = PStr (lit ''Quiz''), book = PNone,
           videos = [], articles = []\<rparr>,
      [Generate TextModel (lit ''Create a 3-question quiz based on:\<newline>Trees and graphs''),
       Sleep 5,
       Generate TextModel (lit ''Create a 3-question quiz based on:\<newline>Trees and graphs'')])
 \<and> fst (handle_request quiet_world CMD_QUIZ (lit ''Trees and graphs'') [] []) =
     Inr \<lparr>explanation = PStr (lit ''API Key missing.''), category = PStr (lit ''Quiz''),
          book = PNone, videos = [], articles = []\<rparr>"
proof -
  let ?p = "lit ''Create a 3-question quiz based on:\<newline>Trees and graphs''"
  have "take 5000 (lit ''Trees and graphs'') = lit ''Trees and graphs''"
    by (rule take_all) (simp add: lit_def)
  then have p: "lit ''Create a 3-question quiz based on:\<newline>'' @ take 5000 (lit ''Trees and graphs'') = ?p"
    by (simp add: lit_append [symmetric])
  have q: "quota_error (Error ProviderError (lit ''429 Resource has been exhausted''))"
    by (simp add: quota_error_def lit_def)
  have g: "generate_with_retry (busy_world (Suc 0)) TextModel ?p 3 0 [] =
      (Inr (Some (Response (Inr (lit ''ok'')))), [Generate TextModel ?p, Sleep 5, Generate TextModel ?p])"
    using q
    by (simp add: generate_with_retry.simps [of _ _ _ 3] api_calls_def busy_world_def)
  have k: "lit ''key'' \<noteq> []" by (simp add: lit_def)
  have t: "generate_text (busy_world (Suc 0)) (get_llm_handler (lit ''key'')) ?p [] =
      (lit ''ok'', [Generate TextModel ?p, Sleep 5, Generate TextModel ?p])"
    by (simp add: generate_text_def get_llm_handler_def k g)
  have t': "generate_text quiet_world (get_llm_handler []) ?p [] = (lit ''API Key missing.'', [])"
    by (simp add: generate_text_def get_llm_handler_def)
  show ?thesis
    using quiz_route_result [of "busy_world 1" "lit ''Trees and graphs''" "lit ''key''" "[]"]
      quiz_route_result [of quiet_world "lit ''Trees and graphs''" "[]" "[]"]
    by (simp add: t t' p)
qed

lemma dict_get_present_nonempty: "dict_get d k PNone \<noteq> PNone \<Longrightarrow> d \<noteq> []"
  by (auto simp add: dict_get_def)

text \<open>
  C7. When the query is no sentinel and \<open>analyze_query\<close> returns a dict whose
  \<open>category\<close> is \<open>chat\<close>, \<open>handle_request\<close> returns at once: no search is added to
  the trace, videos and articles are empty, and the explanation is the value stored
  under \<open>explanation\<close>, or \<open>Hello!\<close> when the dict has no such key.
\<close>

theorem chat_route_result:
  assumes "query \<noteq> CMD_SUMMARIZE" and "query \<noteq> CMD_QUIZ"
    and "analyze_query W (get_llm_handler key) query context tr = (PDict d, tr1)"
    and "dict_get d (lit ''category'') PNone = PStr (lit ''chat'')"
  shows "handle_request W query context key tr =
           (Inr \<lparr>explanation = (case map_of d (lit ''explanation'') of
                                   Some v \<Rightarrow> v
                                 | None \<Rightarrow> PStr (lit ''Hello!'')),
                 category = PStr (lit ''chat''), book = PNone, videos = [], articles = []\<rparr>,
            tr1)
       \<and> filter is_search tr1 = filter is_search tr"
proof -
  from assms(4) have "d \<noteq> []" by (intro dict_get_present_nonempty [of d "lit ''category''"]) simp
  then have t: "truthy (PDict d)" by simp
  have e: "dict_get d (lit ''explanation'') (PStr (lit ''Hello!'')) =
      (case map_of d (lit ''explanation'') of Some v \<Rightarrow> v | None \<Rightarrow> PStr (lit ''Hello!''))"
    by (simp add: dict_get_def split: option.splits)
  have "handle_request W query context key tr = research_route W query (PDict d) tr1"
    using assms(1,2,3) t by (simp add: handle_request_def)
  also have "\<dots> = (Inr \<lparr>explanation = (case map_of d (lit ''explanation'') of
                                   Some v \<Rightarrow> v
                                 | None \<Rightarrow> PStr (lit ''Hello!'')),
                 category = PStr (lit ''chat''), book = PNone, videos = [], articles = []\<rparr>,
            tr1)"
    using assms(4) by (simp add: research_route_def e)
  finally have r: "handle_request W query context key tr =
           (Inr \<lparr>explanation = (case map_of d (lit ''explanation'') of
                                   Some v \<Rightarrow> v
                                 | None \<Rightarrow> PStr (lit ''Hello!'')),
                 category = PStr (lit ''chat''), book = PNone, videos = [], articles = []\<rparr>,
            tr1)" .
  from analyze_query_no_search [of W "get_llm_handler key" query "context" tr] assms(3)
  have "filter is_search tr1 = filter is_search tr" by simp
  with r show ?thesis by simp
qed

lemma analyze_query_structured:
  "key \<noteq> [] \<Longrightarrow>
   analyze_query (structured_world reply v) (get_llm_handler key) query context [] =
     (v, [Generate JsonModel (analyze_prompt query context)])"
  by (simp add: analyze_query_def get_llm_handler_def structured_world_def
        generate_with_retry.simps [of _ _ _ 3] api_calls_def)

theorem chat_route_result_witness:
  \<open>lit ''hi'' \<noteq> CMD_SUMMARIZE \<and> lit ''hi'' \<noteq> CMD_QUIZ
 \<and> analyze_query
      (structured_world (lit ''{"category": "chat"}'') (PDict [(lit ''category'', PStr (lit ''chat''))]))
      (get_llm_handler (lit ''key'')) (lit ''hi'') [] [] =
      (PDict [(lit ''category'', PStr (lit ''chat''))],
       [Generate JsonModel (analyze_prompt (lit ''hi'') [])])
 \<and> handle_request
      (structured_world (lit ''{"category": "chat"}'') (PDict [(lit ''category'', PStr (lit ''chat''))]))
      (lit ''hi'') [] (lit ''key'') [] =
      (Inr \<lparr>explanation = PStr (lit ''Hello!''), category = PStr (lit ''chat''), book = PNone,
            videos = [], articles = []\<rparr>,
       [Generate JsonModel (analyze_prompt (lit ''hi'') [])])\<close>
proof -
  have s: "lit ''hi'' \<noteq> CMD_SUMMARIZE" "lit ''hi'' \<noteq> CMD_QUIZ"
    by (simp_all add: CMD_SUMMARIZE_def CMD_QUIZ_def lit_eq_iff)
  have k: "lit ''key'' \<noteq> []" by (simp add: lit_def)
  have c: "dict_get [(lit ''category'', PStr (lit ''chat''))] (lit ''category'') PNone = PStr (lit ''chat'')"
    by (simp add: dict_get_def)
  show ?thesis
    using chat_route_result [OF s analyze_query_structured [OF k] c] s
      analyze_query_structured [OF k, of _ "PDict [(lit ''category'', PStr (lit ''chat''))]" "lit ''hi''" "[]"]
    by (simp add: lit_eq_iff)
qed

lemma ensure_links_string:
  "\<exists>arts. ensure_links W (PStr t) raw = Inr arts \<and> arts \<noteq> [] \<and> (raw = [] \<longrightarrow> length arts = 2)"
  by (simp add: ensure_links_def Let_def)

lemma search_web_string:
  "\<exists>raw rest. search_web W (PStr q) (PStr c) tr =
      (Inr raw,
       tr @ [WebSearch (PStr (q @ lit '' ('' @ site_string (trusted_domains W c) @ lit '')''))
               (lit ''us-en'') 4] @ rest)
    \<and> (rest = [] \<or> rest = [WebSearch (PStr q) (lit ''us-en'') 5])"
  by (simp add: search_web_unfold smart_query_def fmt_def)

lemma general_sites:
  "site_string (trusted_domains W (lit ''general'')) =
   lit ''site:britannica.com OR site:bbc.com OR site:nytimes.com OR site:investopedia.com''"
proof -
  have l: "str_lower W (lit ''general'') = lit ''general''"
    by (simp add: str_lower_def is_english_def ascii_lower_def lit_def)
  show ?thesis
    by (simp add: trusted_domains_def l general_allowlist site_string_def lit_append [symmetric])
qed

lemma cs_sites:
  "site_string (trusted_domains W (lit ''cs'')) =
   lit ''site:geeksforgeeks.org OR site:w3schools.com OR site:freecodecamp.org OR site:stackoverflow.com''"
proof -
  have l: "str_lower W (lit ''cs'') = lit ''cs''"
    by (simp add: str_lower_def is_english_def ascii_lower_def lit_def)
  show ?thesis
    by (simp add: trusted_domains_def l TRUSTED_SITES_def site_string_def lit_append [symmetric])
qed

text \<open>
  C3. When the query is no sentinel and \<open>analyze_query\<close> returns \<open>None\<close>,
  \<open>handle_request\<close> returns a result and raises nothing: the explanation is what
  \<open>generate_text\<close> returns for the prompt made of the first 10000 characters of the
  context and the query; the video search and the web search are made on the query
  itself, the web search with category \<open>general\<close> (so over the general allowlist);
  the category of the result is \<open>general\<close>; the articles are what \<open>ensure_links\<close>
  makes of the web results for the query, and they are never empty: two links when the
  web search found nothing.
\<close>

theorem fallback_route_result:
  assumes "query \<noteq> CMD_SUMMARIZE" and "query \<noteq> CMD_QUIZ"
    and "analyze_query W (get_llm_handler key) query context tr = (PNone, tr1)"
  shows "\<exists>r fallback_text tr2 tr3 raw rest.
           handle_request W query context key tr = (Inr r, tr3)
         \<and> generate_text W (get_llm_handler key)
              (lit ''Context: '' @ take 10000 context @ lit ''\<newline>\<newline>User Request: '' @ query) tr1 =
              (fallback_text, tr2)
         \<and> explanation r = PStr fallback_text
         \<and> category r = PStr (lit ''general'')
         \<and> videos r = fst (search_youtube W (PStr query) 2 tr2)
         \<and> search_web W (PStr query) (PStr (lit ''general'')) (tr2 @ [VideoSearch (PStr query) 2]) =
              (Inr raw, tr3)
         \<and> tr3 = tr2 @ [VideoSearch (PStr query) 2,
                         WebSearch (PStr (query @ lit '' (site:britannica.com OR site:bbc.com OR site:nytimes.com OR site:investopedia.com)''))
                           (lit ''us-en'') 4] @ rest
         \<and> (rest = [] \<or> rest = [WebSearch (PStr query) (lit ''us-en'') 5])
         \<and> ensure_links W (PStr query) raw = Inr (articles r)
         \<and> articles r \<noteq> []
         \<and> (raw = [] \<longrightarrow> length (articles r) = 2)"
proof -
  obtain fallback_text tr2 where
    g: "generate_text W (get_llm_handler key) (fallback_prompt context query) tr1 = (fallback_text, tr2)"
    by (cases "generate_text W (get_llm_handler key) (fallback_prompt context query) tr1") blast
  have v: "cached_video_search W (PStr query) tr2 =
      (fst (search_youtube W (PStr query) 2 tr2), tr2 @ [VideoSearch (PStr query) 2])"
    by (simp add: cached_video_search_def search_youtube_def split: sum.splits)
  obtain raw rest where
    w: "search_web W (PStr query) (PStr (lit ''general'')) (tr2 @ [VideoSearch (PStr query) 2]) =
      (Inr raw,
       (tr2 @ [VideoSearch (PStr query) 2]) @
       [WebSearch (PStr (query @ lit '' ('' @ site_string (trusted_domains W (lit ''general'')) @ lit '')''))
               (lit ''us-en'') 4] @ rest)"
    and rest: "rest = [] \<or> rest = [WebSearch (PStr query) (lit ''us-en'') 5]"
    using search_web_string [of W query "lit ''general''" "tr2 @ [VideoSearch (PStr query) 2]"]
    by blast
  have q: "query @ lit '' ('' @ site_string (trusted_domains W (lit ''general'')) @ lit '')'' =
      query @ lit '' (site:britannica.com OR site:bbc.com OR site:nytimes.com OR site:investopedia.com)''"
    by (simp add: general_sites lit_append [symmetric])
  obtain arts where
    a: "ensure_links W (PStr query) raw = Inr arts" "arts \<noteq> []" "raw = [] \<longrightarrow> length arts = 2"
    using ensure_links_string [of W query raw] by blast
  let ?r = "\<lparr>explanation = PStr fallback_text, category = PStr (lit ''general''),
             book = PNone, videos = fst (search_youtube W (PStr query) 2 tr2), articles = arts\<rparr>"
  let ?tr3 = "tr2 @ [VideoSearch (PStr query) 2,
                         WebSearch (PStr (query @ lit '' (site:britannica.com OR site:bbc.com OR site:nytimes.com OR site:investopedia.com)''))
                           (lit ''us-en'') 4] @ rest"
  have w': "search_web W (PStr query) (PStr (lit ''general'')) (tr2 @ [VideoSearch (PStr query) 2]) =
      (Inr raw, ?tr3)"
    using w by (simp add: q)
  have "handle_request W query context key tr = fallback_route W (get_llm_handler key) query context tr1"
    using assms by (simp add: handle_request_def)
  also have "\<dots> = (Inr ?r, ?tr3)"
    by (simp add: fallback_route_def g v cached_web_search_def w' a)
  finally have h: "handle_request W query context key tr = (Inr ?r, ?tr3)" .
  from g have g': "generate_text W (get_llm_handler key)
              (lit ''Context: '' @ take 10000 context @ lit ''\<newline>\<newline>User Request: '' @ query) tr1 =
              (fallback_text, tr2)"
    by (simp add: fallback_prompt_def)
  show ?thesis
    apply (rule exI [of _ ?r], rule exI [of _ fallback_text], rule exI [of _ tr2])
    apply (rule exI [of _ ?tr3], rule exI [of _ raw], rule exI [of _ rest])
    using h g' w' rest a by simp
qed

lemma generate_text_quiet:
  "key \<noteq> [] \<Longrightarrow>
   generate_text quiet_world (get_llm_handler key) p tr =
     (lit ''Generation failed: 503 Service Unavailable'', tr @ [Generate TextModel p])"
proof -
  assume k: "key \<noteq> []"
  have u: "\<not> quota_error (Error ProviderError (lit ''503 Service Unavailable''))"
    by (simp add: quota_error_def lit_def)
  have "generate_with_retry quiet_world TextModel p 3 0 tr =
      (Inl (Error ProviderError (lit ''503 Service Unavailable'')), tr @ [Generate TextModel p])"
    using u by (intro retry_raise) (simp_all add: quiet_world_def)
  with k show ?thesis
    by (simp add: generate_text_def get_llm_handler_def generation_failed_def lit_append [symmetric])
qed

lemma analyze_query_quiet:
  "key \<noteq> [] \<Longrightarrow>
   analyze_query quiet_world (get_llm_handler key) q c tr =
     (PNone, tr @ [Generate JsonModel (analyze_prompt q c)])"
proof -
  assume k: "key \<noteq> []"
  have u: "\<not> quota_error (Error ProviderError (lit ''503 Service Unavailable''))"
    by (simp add: quota_error_def lit_def)
  have "generate_with_retry quiet_world JsonModel (analyze_prompt q c) 3 0 tr =
      (Inl (Error ProviderError (lit ''503 Service Unavailable'')),
       tr @ [Generate JsonModel (analyze_prompt q c)])"
    using u by (intro retry_raise) (simp_all add: quiet_world_def)
  with k show ?thesis
    by (simp add: analyze_query_def get_llm_handler_def)
qed

lemma search_web_quiet:
  "fst (search_web quiet_world (PStr q) (PStr c) tr) = Inr []"
  by (simp add: search_web_unfold phase_links_def quiet_world_def)

theorem fallback_route_result_witness:
  "lit ''Explain graphs'' \<noteq> CMD_SUMMARIZE \<and> lit ''Explain graphs'' \<noteq> CMD_QUIZ
 \<and> analyze_query quiet_world (get_llm_handler (lit ''key'')) (lit ''Explain graphs'') [] [] =
      (PNone, [Generate JsonModel (analyze_prompt (lit ''Explain graphs'') [])])
 \<and> (\<exists>r tr3. handle_request quiet_world (lit ''Explain graphs'') [] (lit ''key'') [] = (Inr r, tr3)
       \<and> explanation r = PStr (lit ''Generation failed: 503 Service Unavailable'')
       \<and> category r = PStr (lit ''general'')
       \<and> videos r = []
       \<and> articles r =
           [\<lparr>a_title = [128214] @ lit '' Learn 'Explain graphs' on Khan Academy'',
              a_link = lit ''https://www.khanacademy.org/search?page_search_query=Explain%20graphs''\<rparr>,
            \<lparr>a_title = [127891] @ lit '' Academic Papers: Explain graphs'',
              a_link = lit ''https://scholar.google.com/scholar?q=Explain%20graphs''\<rparr>])"
proof -
  have s: "lit ''Explain graphs'' \<noteq> CMD_SUMMARIZE" "lit ''Explain graphs'' \<noteq> CMD_QUIZ"
    by (simp_all add: CMD_SUMMARIZE_def CMD_QUIZ_def lit_eq_iff)
  have k: "lit ''key'' \<noteq> []" by (simp add: lit_def)
  have aq: "analyze_query quiet_world (get_llm_handler (lit ''key'')) (lit ''Explain graphs'') [] [] =
      (PNone, [Generate JsonModel (analyze_prompt (lit ''Explain graphs'') [])])"
    using analyze_query_quiet [OF k, of "lit ''Explain graphs''" "[]" "[]"] by simp
  have y: "fst (search_youtube quiet_world x 2 t) = []" for x t
    by (simp add: search_youtube_def quiet_world_def)
  have q: "urllib_quote quiet_world (lit ''Explain graphs'') = lit ''Explain%20graphs''"
    by (simp add: quiet_world_def percent_encode_def lit_def unreserved_def utf8_def hex_digit_def)
  have t: "[39] @ lit ''Explain graphs'' @ [39] @ lit '' on Khan Academy'' = lit '''Explain graphs' on Khan Academy''"
    by (simp add: lit_def)
  have e: "ensure_links quiet_world (PStr (lit ''Explain graphs'')) [] =
      Inr [\<lparr>a_title = [128214] @ lit '' Learn 'Explain graphs' on Khan Academy'',
              a_link = lit ''https://www.khanacademy.org/search?page_search_query=Explain%20graphs''\<rparr>,
            \<lparr>a_title = [127891] @ lit '' Academic Papers: Explain graphs'',
              a_link = lit ''https://scholar.google.com/scholar?q=Explain%20graphs''\<rparr>]"
    using t by (simp add: ensure_links_def q lit_append [symmetric])
  obtain r fallback_text tr2 tr3 raw where
    h: "handle_request quiet_world (lit ''Explain graphs'') [] (lit ''key'') [] = (Inr r, tr3)"
    and g: "generate_text quiet_world (get_llm_handler (lit ''key''))
              (lit ''Context: '' @ take 10000 [] @ lit ''\<newline>\<newline>User Request: '' @ lit ''Explain graphs'')
              [Generate JsonModel (analyze_prompt (lit ''Explain graphs'') [])] =
              (fallback_text, tr2)"
    and x: "explanation r = PStr fallback_text"
    and c: "category r = PStr (lit ''general'')"
    and v: "videos r = fst (search_youtube quiet_world (PStr (lit ''Explain graphs'')) 2 tr2)"
    and w: "search_web quiet_world (PStr (lit ''Explain graphs'')) (PStr (lit ''general''))
              (tr2 @ [VideoSearch (PStr (lit ''Explain graphs'')) 2]) = (Inr raw, tr3)"
    and a: "ensure_links quiet_world (PStr (lit ''Explain graphs'')) raw = Inr (articles r)"
    using fallback_route_result [OF s aq] by blast
  from g have "fallback_text = lit ''Generation failed: 503 Service Unavailable''"
    by (simp add: generate_text_quiet [OF k])
  moreover from w have "raw = []"
    using search_web_quiet [of "lit ''Explain graphs''" "lit ''general''"
        "tr2 @ [VideoSearch (PStr (lit ''Explain graphs'')) 2]"]
    by simp
  ultimately show ?thesis
    using s aq h x c v a e by (simp add: y)
qed

lemma split_search_tag_absent:
  "\<not> occurs_in (lit ''SEARCH_QUERY:'')
       (str_replace (lit ''**SEARCH_QUERY:**'') (lit ''SEARCH_QUERY:'') full) \<Longrightarrow>
   split_search_tag full = Inr (full, lit ''Computer Science Core'')"
  by (simp add: split_search_tag_def Let_def)

lemma split_search_tag_present:
  assumes "occurs_in (lit ''SEARCH_QUERY:'')
             (str_replace (lit ''**SEARCH_QUERY:**'') (lit ''SEARCH_QUERY:'') full)"
  shows "\<exists>pre mid tail.
           str_replace (lit ''**SEARCH_QUERY:**'') (lit ''SEARCH_QUERY:'') full =
             pre @ lit ''SEARCH_QUERY:'' @ mid @ tail
         \<and> \<not> occurs_in (lit ''SEARCH_QUERY:'') (pre @ butlast (lit ''SEARCH_QUERY:''))
         \<and> (tail = [] \<and> \<not> occurs_in (lit ''SEARCH_QUERY:'') mid
            \<or> (\<exists>t. tail = lit ''SEARCH_QUERY:'' @ t)
              \<and> \<not> occurs_in (lit ''SEARCH_QUERY:'') (mid @ butlast (lit ''SEARCH_QUERY:'')))
         \<and> split_search_tag full = Inr (str_strip pre, str_strip mid)"
proof -
  define M where "M = lit ''SEARCH_QUERY:''"
  define clean where "clean = str_replace (lit ''**SEARCH_QUERY:**'') M full"
  have M: "M \<noteq> []" by (simp add: M_def lit_def)
  from assms have occ: "occurs_in M clean" by (simp add: M_def clean_def)
  from first_occurrence [OF M occ] obtain pre rest where
    c: "clean = pre @ M @ rest" and p: "\<not> occurs_in M (pre @ butlast M)" by blast
  from split_from_first [OF M p, of "[]" rest]
  have s: "split_from M [] clean = pre # split_from M [] rest" by (simp add: c)
  have tag: "split_search_tag full =
      (case split_from M [] clean of
         p0 # p1 # ps \<Rightarrow> Inr (str_strip p0, str_strip p1)
       | _ \<Rightarrow> Inl (Error IndexError (lit ''list index out of range'')))"
    using occ by (simp add: split_search_tag_def Let_def M_def clean_def)
  show ?thesis
  proof (cases "occurs_in M rest")
    case True
    from first_occurrence [OF M True] obtain mid t where
      r: "rest = mid @ M @ t" and m: "\<not> occurs_in M (mid @ butlast M)" by blast
    from split_from_first [OF M m, of "[]" t]
    have "split_from M [] rest = mid # split_from M [] t" by (simp add: r)
    with s tag have "split_search_tag full = Inr (str_strip pre, str_strip mid)" by simp
    moreover from c r have "clean = pre @ M @ mid @ (M @ t)" by simp
    ultimately show ?thesis
      using p m unfolding M_def [symmetric] clean_def [symmetric] by blast
  next
    case False
    then have "split_from M [] rest = [rest]"
      using split_from_absent [of M rest "[]"] by simp
    with s tag have "split_search_tag full = Inr (str_strip pre, str_strip rest)" by simp
    moreover from c have "clean = pre @ M @ rest @ []" by simp
    ultimately show ?thesis
      using p False unfolding M_def [symmetric] clean_def [symmetric] by blast
  qed
qed

lemma split_search_tag_total: "\<exists>summary topic. split_search_tag full = Inr (summary, topic)"
proof (cases "occurs_in (lit ''SEARCH_QUERY:'')
                (str_replace (lit ''**SEARCH_QUERY:**'') (lit ''SEARCH_QUERY:'') full)")
  case True
  from split_search_tag_present [OF True] show ?thesis by blast
next
  case False
  from split_search_tag_absent [OF False] show ?thesis by blast
qed

text \<open>
  C2. Provided the video provider returns no more results than it is asked for: on the
  summarize sentinel \<open>handle_request\<close> returns, for every context and key, a result
  with category \<open>Syllabus\<close>, at most 2 videos and a non-empty article list. With
  \<open>full\<close> the text \<open>generate_text\<close> returns and \<open>clean\<close> that text after the bold
  marker was replaced by the plain one: if the marker does not occur in \<open>clean\<close>, the
  explanation is \<open>full\<close> and the topic is "Computer Science Core"; if it occurs, the
  explanation is the stripped text before its first occurrence and the topic is the
  stripped text between that occurrence and the next one (or the end). The video search
  and the web search (category \<open>cs\<close>) are both made on the topic, and the articles are
  what \<open>ensure_links\<close> makes of the web results for the topic.
\<close>

theorem summarize_route_result:
  assumes "\<forall>q hits. youtube_results W q 2 = Inr hits \<longrightarrow> length hits \<le> 2"
  shows "\<exists>r full tr1 summary topic raw tr3 rest.
           handle_request W CMD_SUMMARIZE context key tr = (Inr r, tr3)
         \<and> generate_text W (get_llm_handler key) (summarize_prompt context) tr = (full, tr1)
         \<and> split_search_tag full = Inr (summary, topic)
         \<and> (\<not> occurs_in (lit ''SEARCH_QUERY:'')
                 (str_replace (lit ''**SEARCH_QUERY:**'') (lit ''SEARCH_QUERY:'') full) \<longrightarrow>
              summary = full \<and> topic = lit ''Computer Science Core'')
         \<and> (occurs_in (lit ''SEARCH_QUERY:'')
                 (str_replace (lit ''**SEARCH_QUERY:**'') (lit ''SEARCH_QUERY:'') full) \<longrightarrow>
              (\<exists>pre mid tail.
                  str_replace (lit ''**SEARCH_QUERY:**'') (lit ''SEARCH_QUERY:'') full =
                    pre @ lit ''SEARCH_QUERY:'' @ mid @ tail
                \<and> \<not> occurs_in (lit ''SEARCH_QUERY:'') (pre @ butlast (lit ''SEARCH_QUERY:''))
                \<and> (tail = [] \<and> \<not> occurs_in (lit ''SEARCH_QUERY:'') mid
                   \<or> (\<exists>t. tail = lit ''SEARCH_QUERY:'' @ t)
                     \<and> \<not> occurs_in (lit ''SEARCH_QUERY:'') (mid @ butlast (lit ''SEARCH_QUERY:'')))
                \<and> summary = str_strip pre \<and> topic = str_strip mid))
         \<and> explanation r = PStr summary
         \<and> category r = PStr (lit ''Syllabus'')
         \<and> videos r = fst (search_youtube W (PStr topic) 2 tr1)
         \<and> length (videos r) \<le> 2
         \<and> search_web W (PStr topic) (PStr (lit ''cs'')) (tr1 @ [VideoSearch (PStr topic) 2]) =
              (Inr raw, tr3)
         \<and> tr3 = tr1 @ [VideoSearch (PStr topic) 2,
                         WebSearch (PStr (topic @ lit '' (site:geeksforgeeks.org OR site:w3schools.com OR site:freecodecamp.org OR site:stackoverflow.com)''))
                           (lit ''us-en'') 4] @ rest
         \<and> (rest = [] \<or> rest = [WebSearch (PStr topic) (lit ''us-en'') 5])
         \<and> ensure_links W (PStr topic) raw = Inr (articles r)
         \<and> articles r \<noteq> []"
proof -
  obtain full tr1 where
    g: "generate_text W (get_llm_handler key) (summarize_prompt context) tr = (full, tr1)"
    by (cases "generate_text W (get_llm_handler key) (summarize_prompt context) tr") blast
  obtain summary topic where st: "split_search_tag full = Inr (summary, topic)"
    using split_search_tag_total by blast
  have absent: "\<not> occurs_in (lit ''SEARCH_QUERY:'')
                 (str_replace (lit ''**SEARCH_QUERY:**'') (lit ''SEARCH_QUERY:'') full) \<longrightarrow>
              summary = full \<and> topic = lit ''Computer Science Core''"
    using split_search_tag_absent [of full] st by auto
  have present: "occurs_in (lit ''SEARCH_QUERY:'')
                 (str_replace (lit ''**SEARCH_QUERY:**'') (lit ''SEARCH_QUERY:'') full) \<longrightarrow>
              (\<exists>pre mid tail.
                  str_replace (lit ''**SEARCH_QUERY:**'') (lit ''SEARCH_QUERY:'') full =
                    pre @ lit ''SEARCH_QUERY:'' @ mid @ tail
                \<and> \<not> occurs_in (lit ''SEARCH_QUERY:'') (pre @ butlast (lit ''SEARCH_QUERY:''))
                \<and> (tail = [] \<and> \<not> occurs_in (lit ''SEARCH_QUERY:'') mid
                   \<or> (\<exists>t. tail = lit ''SEARCH_QUERY:'' @ t)
                     \<and> \<not> occurs_in (lit ''SEARCH_QUERY:'') (mid @ butlast (lit ''SEARCH_QUERY:'')))
                \<and> summary = str_strip pre \<and> topic = str_strip mid)"
  proof
    assume "occurs_in (lit ''SEARCH_QUERY:'')
                 (str_replace (lit ''**SEARCH_QUERY:**'') (lit ''SEARCH_QUERY:'') full)"
    from split_search_tag_present [OF this] st show "\<exists>pre mid tail.
                  str_replace (lit ''**SEARCH_QUERY:**'') (lit ''SEARCH_QUERY:'') full =
                    pre @ lit ''SEARCH_QUERY:'' @ mid @ tail
                \<and> \<not> occurs_in (lit ''SEARCH_QUERY:'') (pre @ butlast (lit ''SEARCH_QUERY:''))
                \<and> (tail = [] \<and> \<not> occurs_in (lit ''SEARCH_QUERY:'') mid
                   \<or> (\<exists>t. tail = lit ''SEARCH_QUERY:'' @ t)
                     \<and> \<not> occurs_in (lit ''SEARCH_QUERY:'') (mid @ butlast (lit ''SEARCH_QUERY:'')))
                \<and> summary = str_strip pre \<and> topic = str_strip mid"
      by auto
  qed
  have v: "cached_video_search W (PStr topic) tr1 =
      (fst (search_youtube W (PStr topic) 2 tr1), tr1 @ [VideoSearch (PStr topic) 2])"
    by (simp add: cached_video_search_def search_youtube_def split: sum.splits)
  from assms have "\<forall>hits. youtube_results W (PStr topic) 2 = Inr hits \<longrightarrow> length hits \<le> 2"
    by blast
  then have len: "length (fst (search_youtube W (PStr topic) 2 tr1)) \<le> 2"
    using search_youtube_le_results [of W "PStr topic" 2 tr1] by (auto split: sum.splits)
  obtain raw rest where
    w: "search_web W (PStr topic) (PStr (lit ''cs'')) (tr1 @ [VideoSearch (PStr topic) 2]) =
      (Inr raw,
       (tr1 @ [VideoSearch (PStr topic) 2]) @
       [WebSearch (PStr (topic @ lit '' ('' @ site_string (trusted_domains W (lit ''cs'')) @ lit '')''))
               (lit ''us-en'') 4] @ rest)"
    and rest: "rest = [] \<or> rest = [WebSearch (PStr topic) (lit ''us-en'') 5]"
    using search_web_string [of W topic "lit ''cs''" "tr1 @ [VideoSearch (PStr topic) 2]"]
    by blast
  have q: "topic @ lit '' ('' @ site_string (trusted_domains W (lit ''cs'')) @ lit '')'' =
      topic @ lit '' (site:geeksforgeeks.org OR site:w3schools.com OR site:freecodecamp.org OR site:stackoverflow.com)''"
    by (simp add: cs_sites lit_append [symmetric])
  obtain arts where
    a: "ensure_links W (PStr topic) raw = Inr arts" "arts \<noteq> []"
    using ensure_links_string [of W topic raw] by blast
  let ?r = "\<lparr>explanation = PStr summary, category = PStr (lit ''Syllabus''),
             book = PNone, videos = fst (search_youtube W (PStr topic) 2 tr1), articles = arts\<rparr>"
  let ?tr3 = "tr1 @ [VideoSearch (PStr topic) 2,
                         WebSearch (PStr (topic @ lit '' (site:geeksforgeeks.org OR site:w3schools.com OR site:freecodecamp.org OR site:stackoverflow.com)''))
                           (lit ''us-en'') 4] @ rest"
  have w': "search_web W (PStr topic) (PStr (lit ''cs'')) (tr1 @ [VideoSearch (PStr topic) 2]) =
      (Inr raw, ?tr3)"
    using w by (simp add: q)
  have "handle_request W CMD_SUMMARIZE context key tr =
      summarize_route W (get_llm_handler key) context tr"
    by (simp add: handle_request_def)
  also have "\<dots> = (Inr ?r, ?tr3)"
    by (simp add: summarize_route_def g st v cached_web_search_def w' a)
  finally have h: "handle_request W CMD_SUMMARIZE context key tr = (Inr ?r, ?tr3)" .
  show ?thesis
    apply (rule exI [of _ ?r], rule exI [of _ full], rule exI [of _ tr1])
    apply (rule exI [of _ summary], rule exI [of _ topic], rule exI [of _ raw])
    apply (rule exI [of _ ?tr3], rule exI [of _ rest])
    using h g st absent present w' rest a len by simp
qed

text \<open>Equations that evaluate the string operations on a given text.\<close>

lemma take_prefix: "(take (length p) s = p) = prefix p s"
  by (metis append_eq_conv_conj prefix_def)

lemma occurs_in_Cons: "occurs_in sub (c # cs) = (prefix sub (c # cs) \<or> occurs_in sub cs)"
  by (simp add: take_prefix [symmetric])

lemma str_replace_Nil: "old \<noteq> [] \<Longrightarrow> str_replace old new [] = []"
  by (simp add: str_replace.simps [of old new "[]"])

lemma str_replace_Cons:
  "old \<noteq> [] \<Longrightarrow> str_replace old new (c # cs) =
     (if prefix old (c # cs) then new @ str_replace old new (drop (length old) (c # cs))
      else c # str_replace old new cs)"
  by (simp add: str_replace.simps [of old new "c # cs"] take_prefix)

lemma split_from_Nil: "split_from sep cur [] = [cur]"
  by (simp add: split_from.simps [of sep cur "[]"])

lemma split_from_Cons:
  "sep \<noteq> [] \<Longrightarrow> split_from sep cur (c # cs) =
     (if prefix sep (c # cs) then cur # split_from sep [] (drop (length sep) (c # cs))
      else split_from sep (cur @ [c]) cs)"
  by (simp add: split_from.simps [of sep cur "c # cs"] take_prefix)

lemma split_search_tag_example:
  "split_search_tag (lit ''1. Graphs\<newline>2. Trees\<newline>**SEARCH_QUERY:** Graph Theory\<newline>'') =
   Inr (lit ''1. Graphs\<newline>2. Trees'', lit ''Graph Theory'')"
proof -
  have r: "str_replace (lit ''**SEARCH_QUERY:**'') (lit ''SEARCH_QUERY:'')
       (lit ''1. Graphs\<newline>2. Trees\<newline>**SEARCH_QUERY:** Graph Theory\<newline>'') =
     lit ''1. Graphs\<newline>2. Trees\<newline>SEARCH_QUERY: Graph Theory\<newline>''"
    by (simp add: lit_def str_replace_Cons str_replace_Nil)
  have o: "occurs_in (lit ''SEARCH_QUERY:'')
       (lit ''1. Graphs\<newline>2. Trees\<newline>SEARCH_QUERY: Graph Theory\<newline>'')"
    by (simp add: lit_def occurs_in_Cons del: occurs_in.simps(2))
  have s: "split_from (lit ''SEARCH_QUERY:'') []
       (lit ''1. Graphs\<newline>2. Trees\<newline>SEARCH_QUERY: Graph Theory\<newline>'') =
     [lit ''1. Graphs\<newline>2. Trees\<newline>'', lit '' Graph Theory\<newline>'']"
    by (simp add: lit_def split_from_Cons split_from_Nil)
  have t: "str_strip (lit ''1. Graphs\<newline>2. Trees\<newline>'') = lit ''1. Graphs\<newline>2. Trees''"
    "str_strip (lit '' Graph Theory\<newline>'') = lit ''Graph Theory''"
    by (simp_all add: lit_def str_strip_def is_space_def)
  show ?thesis
    by (simp add: split_search_tag_def r o s t)
qed

theorem summarize_route_result_witness:
  "(\<forall>q. \<exists>hits. youtube_results syllabus_world q 2 = Inr hits \<and> length hits \<le> 2)
 \<and> (\<exists>r tr3. handle_request syllabus_world CMD_SUMMARIZE (lit ''Unit 1: graphs'') (lit ''key'') [] =
            (Inr r, tr3)
       \<and> explanation r = PStr (lit ''1. Graphs\<newline>2. Trees'')
       \<and> category r = PStr (lit ''Syllabus'')
       \<and> videos r =
           [\<lparr>v_url = lit ''https://www.youtube.com/watch?v=a1'', v_title = lit ''Graphs 1'', v_thumb = lit ''t1''\<rparr>,
            \<lparr>v_url = lit ''https://www.youtube.com/watch?v=b2'', v_title = lit ''Graphs 2'', v_thumb = lit ''t2''\<rparr>]
       \<and> articles r =
           [\<lparr>a_title = [128214] @ lit '' Learn 'Graph Theory' on Khan Academy'',
              a_link = lit ''https://www.khanacademy.org/search?page_search_query=Graph%20Theory''\<rparr>,
            \<lparr>a_title = [127891] @ lit '' Academic Papers: Graph Theory'',
              a_link = lit ''https://scholar.google.com/scholar?q=Graph%20Theory''\<rparr>]
       \<and> tr3 =
           [Generate TextModel (summarize_prompt (lit ''Unit 1: graphs'')),
            VideoSearch (PStr (lit ''Graph Theory'')) 2,
            WebSearch (PStr (lit ''Graph Theory (site:geeksforgeeks.org OR site:w3schools.com OR site:freecodecamp.org OR site:stackoverflow.com)''))
              (lit ''us-en'') 4,
            WebSearch (PStr (lit ''Graph Theory'')) (lit ''us-en'') 5])"
proof -
  let ?full = "lit ''1. Graphs\<newline>2. Trees\<newline>**SEARCH_QUERY:** Graph Theory\<newline>''"
  let ?p = "summarize_prompt (lit ''Unit 1: graphs'')"
  have c: "\<forall>q hits. youtube_results syllabus_world q 2 = Inr hits \<longrightarrow> length hits \<le> 2"
    by (auto simp add: syllabus_world_def video_world_def quiet_world_def)
  have k: "lit ''key'' \<noteq> []" by (simp add: lit_def)
  have "generate_with_retry syllabus_world TextModel ?p 3 0 [] =
      (Inr (Some (Response (Inr ?full))), [] @ [Generate TextModel ?p])"
    by (intro retry_return) (simp_all add: syllabus_world_def)
  then have g: "generate_text syllabus_world (get_llm_handler (lit ''key'')) ?p [] =
      (?full, [Generate TextModel ?p])"
    using k by (simp add: generate_text_def get_llm_handler_def)
  have y: "fst (search_youtube syllabus_world x 2 t) =
           [\<lparr>v_url = lit ''https://www.youtube.com/watch?v=a1'', v_title = lit ''Graphs 1'', v_thumb = lit ''t1''\<rparr>,
            \<lparr>v_url = lit ''https://www.youtube.com/watch?v=b2'', v_title = lit ''Graphs 2'', v_thumb = lit ''t2''\<rparr>]" for x t
    by (simp add: search_youtube_def syllabus_world_def video_world_def quiet_world_def
          numeral_2_eq_2 lit_append [symmetric])
  have w: "fst (search_web syllabus_world (PStr q) (PStr c) t) = Inr []" for q c t
    by (simp add: search_web_unfold phase_links_def syllabus_world_def video_world_def
          quiet_world_def)
  have w2: "snd (search_web syllabus_world (PStr q) (PStr c) t) =
      t @ [WebSearch (PStr (smart_query syllabus_world (PStr q) c)) (lit ''us-en'') 4,
           WebSearch (PStr q) (lit ''us-en'') 5]" for q c t
    by (simp add: search_web_unfold phase_links_def syllabus_world_def video_world_def
          quiet_world_def)
  have q: "urllib_quote syllabus_world (lit ''Graph Theory'') = lit ''Graph%20Theory''"
    by (simp add: syllabus_world_def video_world_def quiet_world_def percent_encode_def lit_def
          unreserved_def utf8_def hex_digit_def)
  have t: "[39] @ lit ''Graph Theory'' @ [39] @ lit '' on Khan Academy'' = lit '''Graph Theory' on Khan Academy''"
    by (simp add: lit_def)
  have e: "ensure_links syllabus_world (PStr (lit ''Graph Theory'')) [] =
      Inr [\<lparr>a_title = [128214] @ lit '' Learn 'Graph Theory' on Khan Academy'',
              a_link = lit ''https://www.khanacademy.org/search?page_search_query=Graph%20Theory''\<rparr>,
            \<lparr>a_title = [127891] @ lit '' Academic Papers: Graph Theory'',
              a_link = lit ''https://scholar.google.com/scholar?q=Graph%20Theory''\<rparr>]"
    using t by (simp add: ensure_links_def q lit_append [symmetric])
  obtain r full tr1 summary topic raw tr3 rest where
    h: "handle_request syllabus_world CMD_SUMMARIZE (lit ''Unit 1: graphs'') (lit ''key'') [] = (Inr r, tr3)"
    and g': "generate_text syllabus_world (get_llm_handler (lit ''key'')) ?p [] = (full, tr1)"
    and st: "split_search_tag full = Inr (summary, topic)"
    and x: "explanation r = PStr summary"
    and ca: "category r = PStr (lit ''Syllabus'')"
    and v: "videos r = fst (search_youtube syllabus_world (PStr topic) 2 tr1)"
    and sw: "search_web syllabus_world (PStr topic) (PStr (lit ''cs'')) (tr1 @ [VideoSearch (PStr topic) 2]) =
              (Inr raw, tr3)"
    and tr: "tr3 = tr1 @ [VideoSearch (PStr topic) 2,
                         WebSearch (PStr (topic @ lit '' (site:geeksforgeeks.org OR site:w3schools.com OR site:freecodecamp.org OR site:stackoverflow.com)''))
                           (lit ''us-en'') 4] @ rest"
    and a: "ensure_links syllabus_world (PStr topic) raw = Inr (articles r)"
    using summarize_route_result [OF c, of "lit ''Unit 1: graphs''" "lit ''key''" "[]"] by blast
  from g g' have f: "full = ?full" "tr1 = [Generate TextModel ?p]" by simp_all
  with st have s: "summary = lit ''1. Graphs\<newline>2. Trees''" "topic = lit ''Graph Theory''"
    by (simp_all add: split_search_tag_example)
  from sw have raw: "raw = []"
    using w [of topic "lit ''cs''" "tr1 @ [VideoSearch (PStr topic) 2]"] by simp
  from sw have "tr3 = snd (search_web syllabus_world (PStr topic) (PStr (lit ''cs'')) (tr1 @ [VideoSearch (PStr topic) 2]))"
    by simp
  then have tr3: "tr3 = [Generate TextModel ?p, VideoSearch (PStr (lit ''Graph Theory'')) 2,
            WebSearch (PStr (lit ''Graph Theory (site:geeksforgeeks.org OR site:w3schools.com OR site:freecodecamp.org OR site:stackoverflow.com)''))
              (lit ''us-en'') 4,
            WebSearch (PStr (lit ''Graph Theory'')) (lit ''us-en'') 5]"
    by (simp add: w2 f s smart_query_def fmt_def cs_sites lit_append [symmetric])
  from a raw s e have "articles r =
           [\<lparr>a_title = [128214] @ lit '' Learn 'Graph Theory' on Khan Academy'',
              a_link = lit ''https://www.khanacademy.org/search?page_search_query=Graph%20Theory''\<rparr>,
            \<lparr>a_title = [127891] @ lit '' Academic Papers: Graph Theory'',
              a_link = lit ''https://scholar.google.com/scholar?q=Graph%20Theory''\<rparr>]"
    by simp
  moreover have "\<forall>q. \<exists>hits. youtube_results syllabus_world q 2 = Inr hits \<and> length hits \<le> 2"
    by (simp add: syllabus_world_def video_world_def quiet_world_def)
  ultimately show ?thesis
    using h x ca v s tr3 by (simp add: y)
qed

text \<open>
  C1 does not hold of the code. A structured reply whose \<open>category\<close> is \<open>null\<close> makes
  \<open>search_web\<close> call \<open>lower\<close> on \<open>None\<close>, and a reply that is a JSON array makes
  \<open>handle_request\<close> call \<open>get\<close> on a list: both times an \<open>AttributeError\<close> leaves
  \<open>handle_request\<close>. A chat reply whose \<open>explanation\<close> is \<open>null\<close> gives a result
  whose explanation is \<open>None\<close>.
\<close>

theorem handle_request_raises:
  \<open>fst (handle_request
         (structured_world
            (lit ''{"category": null, "explanation": "Recursion is self-reference."}'')
            (PDict [(lit ''category'', PNone),
                    (lit ''explanation'', PStr (lit ''Recursion is self-reference.''))]))
         (lit ''Explain recursion'') [] (lit ''key'') []) =
     Inl (Error AttributeError
            ([39] @ lit ''NoneType'' @ [39] @ lit '' object has no attribute '' @ [39] @ lit ''lower'' @ [39]))
 \<and> fst (handle_request
         (structured_world (lit ''[{"category": "chat"}]'')
            (PList [PDict [(lit ''category'', PStr (lit ''chat''))]]))
         (lit ''hi'') [] (lit ''key'') []) =
     Inl (Error AttributeError
            ([39] @ lit ''list'' @ [39] @ lit '' object has no attribute '' @ [39] @ lit ''get'' @ [39]))
 \<and> fst (handle_request
         (structured_world (lit ''{"category": "chat", "explanation": null}'')
            (PDict [(lit ''category'', PStr (lit ''chat'')), (lit ''explanation'', PNone)]))
         (lit ''hi'') [] (lit ''key'') []) =
     Inr \<lparr>explanation = PNone, category = PStr (lit ''chat''), book = PNone,
          videos = [], articles = []\<rparr>\<close>
proof -
  have k: "lit ''key'' \<noteq> []" by (simp add: lit_def)
  have s: "lit ''Explain recursion'' \<noteq> CMD_SUMMARIZE" "lit ''Explain recursion'' \<noteq> CMD_QUIZ"
    "lit ''hi'' \<noteq> CMD_SUMMARIZE" "lit ''hi'' \<noteq> CMD_QUIZ"
    by (simp_all add: CMD_SUMMARIZE_def CMD_QUIZ_def lit_eq_iff)
  have y: "cached_video_search (structured_world reply v) x t = ([], t @ [VideoSearch x 2])"
    for reply v x t
    by (simp add: cached_video_search_def search_youtube_def structured_world_def quiet_world_def)
  show ?thesis
    by (simp add: handle_request_def s analyze_query_structured [OF k] research_route_def
          dict_get_def lit_eq_iff y cached_web_search_def search_web_def no_attribute_def)
qed

end
